theory Spec2Isabelle
  imports Complex_Main "HOL-Library.AList" "HOL-Library.Sublist"
    "HOL-Library.Char_ord" "HOL-Library.List_Lexorder"
begin

section \<open>Values, documents and arrays\<close>

text \<open>
  The services of \<^verbatim>\<open>src/app/services\<close> store documents typed \<^verbatim>\<open>Any\<close>: instances of
  the pydantic models of \<^verbatim>\<open>models/embeddings.py\<close>, or the dictionaries that
  \<^verbatim>\<open>json.load\<close> returns. A field value is a scalar; \<open>VObj\<close> stands for any other
  object (a nested structure, a class, a bound method), given by a tag: two of them
  are equal when their tags are.
  \<open>VData\<close> is a \<^verbatim>\<open>datetime\<close>, given by its 14 digits \<^verbatim>\<open>%Y%m%d%H%M%S\<close>.
\<close>

datatype valor = VNone | VBool bool | VInt int | VStr string | VData string | VObj string

text \<open>Python's \<^verbatim>\<open>!=\<close> on these values: \<^verbatim>\<open>bool\<close> is a subclass of \<^verbatim>\<open>int\<close>,
  so \<^verbatim>\<open>True == 1\<close>.\<close>

fun py_ne :: "valor \<Rightarrow> valor \<Rightarrow> bool" where
  "py_ne (VBool b) (VInt i) = (i \<noteq> (if b then 1 else 0))"
| "py_ne (VInt i) (VBool b) = (i \<noteq> (if b then 1 else 0))"
| "py_ne a b = (a \<noteq> b)"

datatype documento =
    DocModelo "(string \<times> valor) list"
  | DocDict "(string \<times> valor) list"

text \<open>
  \<open>DocModelo\<close> is a pydantic instance, given by its attributes, that is by what
  \<^verbatim>\<open>getattr\<close> sees: its fields and the attributes of its class. \<open>DocDict\<close> is a
  \<^verbatim>\<open>dict\<close>, given by its entries. The attributes of a \<^verbatim>\<open>dict\<close> are those of its class,
  whatever its entries are: the names of \<^verbatim>\<open>dir({})\<close> in CPython 3.11. Of these,
  \<^verbatim>\<open>__hash__\<close> is \<^verbatim>\<open>None\<close> (a dictionary is not hashable), \<^verbatim>\<open>__doc__\<close> is the
  documentation string of the class, and the others are objects (the class, bound
  methods), tagged here by their names.
\<close>

definition dict_attrs :: "string list" where
  "dict_attrs = [''__class__'', ''__class_getitem__'', ''__contains__'', ''__delattr__'',
     ''__delitem__'', ''__dir__'', ''__doc__'', ''__eq__'', ''__format__'', ''__ge__'',
     ''__getattribute__'', ''__getitem__'', ''__getstate__'', ''__gt__'', ''__hash__'',
     ''__init__'', ''__init_subclass__'', ''__ior__'', ''__iter__'', ''__le__'', ''__len__'',
     ''__lt__'', ''__ne__'', ''__new__'', ''__or__'', ''__reduce__'', ''__reduce_ex__'',
     ''__repr__'', ''__reversed__'', ''__ror__'', ''__setattr__'', ''__setitem__'',
     ''__sizeof__'', ''__str__'', ''__subclasshook__'', ''clear'', ''copy'', ''fromkeys'',
     ''get'', ''items'', ''keys'', ''pop'', ''popitem'', ''setdefault'', ''update'', ''values'']"

definition dict_doc :: string where
  "dict_doc =
     ''dict() -> new empty dictionary'' @ [CHR 0x0A] @
     ''dict(mapping) -> new dictionary initialized from a mapping object's'' @ [CHR 0x0A] @
     ''    (key, value) pairs'' @ [CHR 0x0A] @
     ''dict(iterable) -> new dictionary initialized as if via:'' @ [CHR 0x0A] @
     ''    d = {}'' @ [CHR 0x0A] @
     ''    for k, v in iterable:'' @ [CHR 0x0A] @
     ''        d[k] = v'' @ [CHR 0x0A] @
     ''dict(**kwargs) -> new dictionary initialized with the name=value pairs'' @ [CHR 0x0A] @
     ''    in the keyword argument list.  For example:  dict(one=1, two=2)''"

text \<open>\<^verbatim>\<open>getattr(doc, chave)\<close>; \<open>None\<close> is \<^verbatim>\<open>AttributeError\<close>. \<^verbatim>\<open>hasattr\<close> is true when
  \<^verbatim>\<open>getattr\<close> does not raise.\<close>

fun getattr :: "documento \<Rightarrow> string \<Rightarrow> valor option" where
  "getattr (DocModelo campos) chave = map_of campos chave"
| "getattr (DocDict entradas) chave =
     (if chave \<notin> set dict_attrs then None
      else if chave = ''__hash__'' then Some VNone
      else if chave = ''__doc__'' then Some (VStr dict_doc)
      else Some (VObj chave))"

definition hasattr :: "documento \<Rightarrow> string \<Rightarrow> bool" where
  "hasattr doc chave = (getattr doc chave \<noteq> None)"

text \<open>\<^verbatim>\<open>chave in doc\<close>: key membership for a dictionary; a pydantic instance is iterated
  as (name, value) pairs, none of which equals a string. \<^verbatim>\<open>doc[chave]\<close>; \<open>None\<close> is
  an exception (\<^verbatim>\<open>KeyError\<close>, \<^verbatim>\<open>TypeError\<close>).\<close>

fun contem :: "documento \<Rightarrow> string \<Rightarrow> bool" where
  "contem (DocModelo campos) chave = False"
| "contem (DocDict entradas) chave = (map_of entradas chave \<noteq> None)"

fun item :: "documento \<Rightarrow> string \<Rightarrow> valor option" where
  "item (DocModelo campos) chave = None"
| "item (DocDict entradas) chave = map_of entradas chave"

subsection \<open>Integers read from strings\<close>

text \<open>
  \<^verbatim>\<open>int(s)\<close> on a string, as CPython 3.11 does it. A string is given by its bytes in
  UTF-8, the encoding of the files. The characters are made ASCII first: one below 127
  stays, a Unicode space becomes a blank, a Unicode decimal digit becomes its ASCII
  digit, and any other character is an error. What is left is read as blanks, a sign
  (45 is the minus, 43 the plus), decimal digits with single underscores (95) between
  them, and blanks; more than 4300 digits are refused. \<open>None\<close> is \<^verbatim>\<open>ValueError\<close>.
\<close>

definition continuacao :: "char \<Rightarrow> bool" where
  "continuacao c = (0x80 \<le> (of_char c :: nat) \<and> (of_char c :: nat) < 0xC0)"

text \<open>The first character of a string and the rest; \<open>None\<close> when the bytes encode no
  character.\<close>

definition ponto :: "string \<Rightarrow> (nat \<times> string) option" where
  "ponto s =
     (case s of
        [] \<Rightarrow> None
      | c # r \<Rightarrow>
          let b = (of_char c :: nat) in
          if b < 0x80 then Some (b, r)
          else if 0xC2 \<le> b \<and> b < 0xE0
          then (case r of
                  c1 # r1 \<Rightarrow>
                    if continuacao c1 then Some ((b - 0xC0) * 64 + (of_char c1 - 0x80), r1) else None
                | _ \<Rightarrow> None)
          else if 0xE0 \<le> b \<and> b < 0xF0
          then (case r of
                  c1 # c2 # r2 \<Rightarrow>
                    let cp = (b - 0xE0) * 4096 + (of_char c1 - 0x80) * 64 + (of_char c2 - 0x80) in
                    if continuacao c1 \<and> continuacao c2 \<and> 0x800 \<le> cp
                       \<and> \<not> (0xD800 \<le> cp \<and> cp < 0xE000)
                    then Some (cp, r2) else None
                | _ \<Rightarrow> None)
          else if 0xF0 \<le> b \<and> b < 0xF5
          then (case r of
                  c1 # c2 # c3 # r3 \<Rightarrow>
                    let cp = (b - 0xF0) * 262144 + (of_char c1 - 0x80) * 4096
                             + (of_char c2 - 0x80) * 64 + (of_char c3 - 0x80) in
                    if continuacao c1 \<and> continuacao c2 \<and> continuacao c3 \<and> 0x10000 \<le> cp
                       \<and> cp < 0x110000
                    then Some (cp, r3) else None
                | _ \<Rightarrow> None)
          else None)"

function utf8 :: "string \<Rightarrow> nat list option" where
  "utf8 s =
     (if s = [] then Some []
      else (case ponto s of
              None \<Rightarrow> None
            | Some (cp, r) \<Rightarrow> map_option ((#) cp) (utf8 r)))"
  by pat_completeness auto
termination
  by (relation "measure length")
     (auto simp: ponto_def Let_def split: list.splits if_splits)

text \<open>The spaces above 127 and the zeros of the runs of decimal digits above 127, of
  Unicode 14.\<close>

definition espacos_unicode :: "nat list" where
  "espacos_unicode = [0x85, 0xA0, 0x1680, 0x2000, 0x2001, 0x2002, 0x2003, 0x2004, 0x2005,
     0x2006, 0x2007, 0x2008, 0x2009, 0x200A, 0x2028, 0x2029, 0x202F, 0x205F, 0x3000]"

definition zeros_decimais :: "nat list" where
  "zeros_decimais = [0x660, 0x6F0, 0x7C0, 0x966, 0x9E6, 0xA66, 0xAE6, 0xB66, 0xBE6, 0xC66,
     0xCE6, 0xD66, 0xDE6, 0xE50, 0xED0, 0xF20, 0x1040, 0x1090, 0x17E0, 0x1810, 0x1946, 0x19D0,
     0x1A80, 0x1A90, 0x1B50, 0x1BB0, 0x1C40, 0x1C50, 0xA620, 0xA8D0, 0xA900, 0xA9D0, 0xA9F0,
     0xAA50, 0xABF0, 0xFF10, 0x104A0, 0x10D30, 0x11066, 0x110F0, 0x11136, 0x111D0, 0x112F0,
     0x11450, 0x114D0, 0x11650, 0x116C0, 0x11730, 0x118E0, 0x11950, 0x11C50, 0x11D50, 0x11DA0,
     0x16A60, 0x16AC0, 0x16B50, 0x1D7CE, 0x1D7D8, 0x1D7E2, 0x1D7EC, 0x1D7F6, 0x1E140, 0x1E2F0,
     0x1E950, 0x1FBF0]"

definition decimal :: "nat \<Rightarrow> nat option" where
  "decimal cp =
     (case filter (\<lambda>z. z \<le> cp \<and> cp < z + 10) zeros_decimais of
        [] \<Rightarrow> None
      | z # _ \<Rightarrow> Some (cp - z))"

text \<open>The characters made ASCII, as code points; and the reading of what is left.\<close>

fun para_ascii :: "nat list \<Rightarrow> nat list option" where
  "para_ascii [] = Some []"
| "para_ascii (cp # r) =
     (if cp < 127 then map_option ((#) cp) (para_ascii r)
      else if cp \<in> set espacos_unicode then map_option ((#) 32) (para_ascii r)
      else (case decimal cp of
              None \<Rightarrow> None
            | Some d \<Rightarrow> map_option ((#) (48 + d)) (para_ascii r)))"

definition espaco :: "nat \<Rightarrow> bool" where
  "espaco c = (c \<in> set [32, 9, 10, 11, 12, 13])"

definition digito :: "nat \<Rightarrow> bool" where
  "digito c = (48 \<le> c \<and> c \<le> 57)"

fun digitos :: "int \<Rightarrow> bool \<Rightarrow> nat list \<Rightarrow> int option" where
  "digitos acc anterior [] = (if anterior then Some acc else None)"
| "digitos acc anterior (c # cs) =
     (if digito c then digitos (10 * acc + (int c - 48)) True cs
      else if c = 95 \<and> anterior \<and> cs \<noteq> [] \<and> digito (hd cs) then digitos acc False cs
      else None)"

definition limitados :: "nat list \<Rightarrow> int option" where
  "limitados r = (if length (filter digito r) > 4300 then None else digitos 0 False r)"

definition py_int :: "string \<Rightarrow> int option" where
  "py_int s =
     (case utf8 s of
        None \<Rightarrow> None
      | Some pontos \<Rightarrow>
          (case para_ascii pontos of
             None \<Rightarrow> None
           | Some a \<Rightarrow>
               (case dropWhile espaco (rev (dropWhile espaco (rev a))) of
                  [] \<Rightarrow> None
                | c # r \<Rightarrow>
                    if c = 45 then map_option uminus (limitados r)
                    else if c = 43 then limitados r
                    else limitados (c # r))))"

text \<open>
  A numpy array: its shape and its elements in row-major order. The elements are
  finite 32-bit floats, given as the real numbers they are.
\<close>

record ndarray =
  shape :: "nat list"
  dados :: "real list"

definition linhas :: "ndarray \<Rightarrow> real list list" where
  "linhas a = map (\<lambda>i. take (shape a ! 1) (drop (i * (shape a ! 1)) (dados a))) [0..<shape a ! 0]"

text \<open>\<^verbatim>\<open>np.array([v], dtype=np.float32)\<close> for a one-dimensional \<open>v\<close>.\<close>

definition matriz_de_vetor :: "real list \<Rightarrow> ndarray" where
  "matriz_de_vetor v = \<lparr>shape = [1, length v], dados = v\<rparr>"

section \<open>The FAISS library\<close>

text \<open>
  The index classes the services construct, as far as the services observe them: the
  dimension \<^verbatim>\<open>d\<close>, the flag \<^verbatim>\<open>is_trained\<close>, and the stored vectors, whose number is
  \<^verbatim>\<open>ntotal\<close>. \<open>IndexIVFFlat nlist nprobe\<close> and \<open>IndexHNSWFlat m\<close> carry their
  parameters.
\<close>

datatype classe_indice = IndexFlatL2 | IndexIVFFlat nat nat | IndexHNSWFlat nat

record faiss_index =
  ix_classe :: classe_indice
  ix_d :: int
  ix_is_trained :: bool
  ix_xb :: "real list list"

definition ntotal :: "faiss_index \<Rightarrow> int" where
  "ntotal ix = int (length (ix_xb ix))"

text \<open>
  The constructors take Python integers. \<^verbatim>\<open>IndexFlatL2\<close> takes a 64-bit signed
  integer and refuses any other (\<open>None\<close> is the exception); the index keeps its
  dimension in a 32-bit signed field, so that a larger value wraps around.
\<close>

definition int32 :: "int \<Rightarrow> int" where
  "int32 n = (n + 2 ^ 31) mod 2 ^ 32 - 2 ^ 31"

definition faiss_IndexFlatL2 :: "int \<Rightarrow> faiss_index option" where
  "faiss_IndexFlatL2 dm =
     (if dm < - (2 ^ 63) \<or> 2 ^ 63 \<le> dm then None
      else Some \<lparr>ix_classe = IndexFlatL2, ix_d = int32 dm, ix_is_trained = True, ix_xb = []\<rparr>)"

text \<open>\<^verbatim>\<open>IndexIVFFlat(quantizer, d, nlist)\<close> takes \<open>d\<close> as a 64-bit unsigned integer and
  requires it to be the dimension of the quantizer. A new inverted-file index has no
  centroids: it is untrained until \<^verbatim>\<open>train\<close> is called, which no service does.\<close>

definition faiss_IndexIVFFlat :: "faiss_index \<Rightarrow> int \<Rightarrow> nat \<Rightarrow> nat \<Rightarrow> faiss_index option" where
  "faiss_IndexIVFFlat quantizer dm nlist nprobe =
     (if dm < 0 \<or> 2 ^ 64 \<le> dm then None
      else if dm \<noteq> ix_d quantizer mod 2 ^ 64 then None
      else Some \<lparr>ix_classe = IndexIVFFlat nlist nprobe, ix_d = int32 dm, ix_is_trained = False,
                  ix_xb = []\<rparr>)"

text \<open>\<^verbatim>\<open>IndexHNSWFlat(d, M)\<close> takes \<open>d\<close> as a 32-bit signed integer.\<close>

definition faiss_IndexHNSWFlat :: "int \<Rightarrow> nat \<Rightarrow> faiss_index option" where
  "faiss_IndexHNSWFlat dm m =
     (if dm < - (2 ^ 31) \<or> 2 ^ 31 \<le> dm then None
      else Some \<lparr>ix_classe = IndexHNSWFlat m, ix_d = dm, ix_is_trained = True, ix_xb = []\<rparr>)"

text \<open>
  \<^verbatim>\<open>index.add(x)\<close>: the Python wrapper unpacks \<^verbatim>\<open>n, d = x.shape\<close> and asserts
  \<^verbatim>\<open>d == self.d\<close>; the library refuses an untrained index. \<open>None\<close> is a raised
  exception.
\<close>

definition faiss_add :: "faiss_index \<Rightarrow> ndarray \<Rightarrow> faiss_index option" where
  "faiss_add ix x =
     (if length (shape x) \<noteq> 2 then None
      else if int (shape x ! 1) \<noteq> ix_d ix then None
      else if \<not> ix_is_trained ix then None
      else Some (ix\<lparr>ix_xb := ix_xb ix @ linhas x\<rparr>))"

text \<open>
  What a search depends on beyond the index and the query is decided inside the library
  and by the machine, and is a parameter here:
   \<^item> \<open>bib_mede q x\<close> is the squared Euclidean distance of the query \<open>q\<close> and the stored
     vector \<open>x\<close> as the library computes it in 32-bit floating point, a finite number;
     \<open>None\<close> when the computation overflows or gives no number;
   \<^item> \<open>bib_visita ix q\<close> are the slots that an approximate index compares the query
     with (a flat index compares it with every stored vector);
   \<^item> \<open>bib_k_max\<close> is the largest \<open>k\<close> for which the two result matrices can be
     allocated.
\<close>

record biblioteca =
  bib_mede :: "real list \<Rightarrow> real list \<Rightarrow> real option"
  bib_visita :: "faiss_index \<Rightarrow> real list \<Rightarrow> nat list"
  bib_k_max :: int

text \<open>The largest finite 32-bit float.\<close>

definition FLT_MAX :: real where
  "FLT_MAX = 340282346638528859811704183484516925440"

definition candidatos :: "biblioteca \<Rightarrow> faiss_index \<Rightarrow> real list \<Rightarrow> nat list" where
  "candidatos bib ix q =
     (case ix_classe ix of
        IndexFlatL2 \<Rightarrow> [0..<length (ix_xb ix)]
      | _ \<Rightarrow> remdups (filter (\<lambda>i. i < length (ix_xb ix)) (bib_visita bib ix q)))"

text \<open>A stored vector enters the result heap only when its distance is below the
  initial threshold of the heap, the largest float.\<close>

definition medir :: "biblioteca \<Rightarrow> faiss_index \<Rightarrow> real list \<Rightarrow> nat \<Rightarrow> (real \<times> int) option" where
  "medir bib ix q i =
     (case bib_mede bib q (ix_xb ix ! i) of
        None \<Rightarrow> None
      | Some d \<Rightarrow> if d < FLT_MAX then Some (d, int i) else None)"

text \<open>
  \<^verbatim>\<open>index.search(x, k)\<close>. The Python wrapper unpacks \<^verbatim>\<open>n, d = x.shape\<close>, asserts
  \<^verbatim>\<open>d == self.d\<close> and \<^verbatim>\<open>k > 0\<close>, allocates two \<open>n\<close> by \<open>k\<close> matrices and passes \<open>k\<close>
  on as a 64-bit signed integer. The matrices returned are the distances, ascending,
  and the slots. A row with fewer than \<open>k\<close> results is filled up with the slot \<open>-1\<close>
  and the largest float. Equal distances keep the order of the slots.
\<close>

definition busca_linha :: "biblioteca \<Rightarrow> faiss_index \<Rightarrow> nat \<Rightarrow> real list \<Rightarrow> (real \<times> int) list" where
  "busca_linha bib ix k q =
     (let achados = take k (sort_key fst (List.map_filter (medir bib ix q) (candidatos bib ix q)))
      in achados @ replicate (k - length achados) (FLT_MAX, - 1))"

definition faiss_search :: "biblioteca \<Rightarrow> faiss_index \<Rightarrow> ndarray \<Rightarrow> int
    \<Rightarrow> (real list list \<times> int list list) option" where
  "faiss_search bib ix x k =
     (if length (shape x) \<noteq> 2 then None
      else if int (shape x ! 1) \<noteq> ix_d ix then None
      else if k \<le> 0 then None
      else if 2 ^ 63 \<le> k \<or> bib_k_max bib < k then None
      else let res = map (busca_linha bib ix (nat k)) (linhas x)
           in Some (map (map fst) res, map (map snd) res))"

section \<open>Index metadata\<close>

record indice_metadata =
  md_id :: string
  md_nome :: string
  md_dimensao :: int
  md_modelo_embeddings :: string
  md_num_vetores :: int
  md_data_criacao :: string
  md_ultima_atualizacao :: string
  md_tem_mapeamento_ids :: bool

text \<open>
  \<^verbatim>\<open>IndiceMetadata(**kw)\<close>: pydantic validates the keyword arguments against the field
  types of the class; keys that are no field are ignored. A value of another type than
  the field's is converted when pydantic converts it in both of its major versions:
  for an integer field, a Boolean and a string of ASCII characters that \<^verbatim>\<open>int\<close> reads;
  for a Boolean field, the integers 0 and 1 and the strings read as truth values,
  whatever their case. A value that pydantic reads as a date (a \<^verbatim>\<open>datetime\<close>, or a
  string or number of a file) is written \<open>VData\<close>. Any other value is refused.
  \<open>agora\<close> is the clock, read by the default factories of the two dates.
\<close>

definition ascii :: "string \<Rightarrow> bool" where
  "ascii s = list_all (\<lambda>c. (of_char c :: nat) < 128) s"

definition minusculas :: "string \<Rightarrow> string" where
  "minusculas s =
     map (\<lambda>c. case map_of (zip ''ABCDEFGHIJKLMNOPQRSTUVWXYZ'' ''abcdefghijklmnopqrstuvwxyz'') c of
                 None \<Rightarrow> c
               | Some l \<Rightarrow> l) s"

fun campo_str :: "valor option \<Rightarrow> string option" where
  "campo_str (Some (VStr x)) = Some x"
| "campo_str _ = None"

fun campo_int :: "valor option \<Rightarrow> int option \<Rightarrow> int option" where
  "campo_int (Some (VInt i)) padrao = Some i"
| "campo_int (Some (VBool b)) padrao = Some (if b then 1 else 0)"
| "campo_int (Some (VStr x)) padrao = (if ascii x then py_int x else None)"
| "campo_int None padrao = padrao"
| "campo_int _ padrao = None"

fun campo_data :: "valor option \<Rightarrow> string \<Rightarrow> string option" where
  "campo_data (Some (VData t)) padrao = Some t"
| "campo_data None padrao = Some padrao"
| "campo_data _ padrao = None"

fun campo_bool :: "valor option \<Rightarrow> bool \<Rightarrow> bool option" where
  "campo_bool (Some (VBool b)) padrao = Some b"
| "campo_bool (Some (VInt i)) padrao = (if i = 1 then Some True else if i = 0 then Some False else None)"
| "campo_bool (Some (VStr x)) padrao =
     (if minusculas x \<in> set [''1'', ''on'', ''t'', ''true'', ''y'', ''yes''] then Some True
      else if minusculas x \<in> set [''0'', ''off'', ''f'', ''false'', ''n'', ''no''] then Some False
      else None)"
| "campo_bool None padrao = Some padrao"
| "campo_bool _ padrao = None"

definition IndiceMetadata_init :: "string \<Rightarrow> (string \<times> valor) list \<Rightarrow> indice_metadata option" where
  "IndiceMetadata_init agora kw =
     (case campo_str (map_of kw ''id'') of None \<Rightarrow> None | Some i \<Rightarrow>
      case campo_str (map_of kw ''nome'') of None \<Rightarrow> None | Some n \<Rightarrow>
      case campo_int (map_of kw ''dimensao'') None of None \<Rightarrow> None | Some dm \<Rightarrow>
      case campo_str (map_of kw ''modelo_embeddings'') of None \<Rightarrow> None | Some m \<Rightarrow>
      case campo_int (map_of kw ''num_vetores'') (Some 0) of None \<Rightarrow> None | Some nv \<Rightarrow>
      case campo_data (map_of kw ''data_criacao'') agora of None \<Rightarrow> None | Some dc \<Rightarrow>
      case campo_data (map_of kw ''ultima_atualizacao'') agora of None \<Rightarrow> None | Some ua \<Rightarrow>
      case campo_bool (map_of kw ''tem_mapeamento_ids'') False of None \<Rightarrow> None | Some tm \<Rightarrow>
      Some \<lparr>md_id = i, md_nome = n, md_dimensao = dm, md_modelo_embeddings = m,
            md_num_vetores = nv, md_data_criacao = dc, md_ultima_atualizacao = ua,
            md_tem_mapeamento_ids = tm\<rparr>)"

section \<open>FaissService\<close>

text \<open>
  The three dictionaries of \<^verbatim>\<open>FaissService.__init__\<close>. A slot mapping is a dictionary
  from integer slots to documents, kept in insertion order.
\<close>

record faiss_service =
  indices :: "string \<rightharpoonup> faiss_index"
  metadados :: "string \<rightharpoonup> indice_metadata"
  mapeamentos :: "string \<rightharpoonup> (int \<times> documento) list"

text \<open>The name \<^verbatim>\<open>f"Indice {indice_id}"\<close>, whose first letter is U+00CD, in UTF-8.\<close>

definition nome_padrao :: "string \<Rightarrow> string" where
  "nome_padrao indice_id = CHR 0xC3 # CHR 0x8D # ''ndice '' @ indice_id"

text \<open>\<^verbatim>\<open>d.get(k, padrao)\<close> and \<^verbatim>\<open>d.update(outro)\<close> on insertion-ordered dictionaries.\<close>

definition dict_get :: "(string \<times> valor) list \<Rightarrow> string \<Rightarrow> valor \<Rightarrow> valor" where
  "dict_get dic k padrao = (case map_of dic k of Some v \<Rightarrow> v | None \<Rightarrow> padrao)"

definition dict_update :: "('k \<times> 'v) list \<Rightarrow> ('k \<times> 'v) list \<Rightarrow> ('k \<times> 'v) list" where
  "dict_update dic outro = fold (\<lambda>(k, v) acc. AList.update k v acc) outro dic"

text \<open>The dictionary \<^verbatim>\<open>metadados_base\<close> of \<^verbatim>\<open>criar_indice\<close>, after its update with the
  caller's metadata, the argument \<^verbatim>\<open>metadados\<close> (here \<open>extra\<close>, the name being taken by
  the field of the service). An empty or absent one is falsy.\<close>

definition metadados_base :: "string \<Rightarrow> string \<Rightarrow> int \<Rightarrow> string \<Rightarrow> (string \<times> valor) list option
    \<Rightarrow> (string \<times> valor) list" where
  "metadados_base agora indice_id dimensao tipo extra =
     (let dado = (case extra of None \<Rightarrow> [] | Some m \<Rightarrow> m);
          base = [(''id'', VStr indice_id),
                  (''nome'', if dado \<noteq> [] then dict_get dado ''nome'' (VStr (nome_padrao indice_id))
                             else VStr (nome_padrao indice_id)),
                  (''dimensao'', VInt dimensao),
                  (''tipo_indice'', VStr tipo),
                  (''modelo_embeddings'',
                     if dado \<noteq> [] then dict_get dado ''modelo_embeddings''
                                         (VStr (''n'' @ [CHR 0xC3, CHR 0xA3] @ ''o especificado''))
                     else VStr (''n'' @ [CHR 0xC3, CHR 0xA3] @ ''o especificado'')),
                  (''data_criacao'', VData agora),
                  (''ultima_atualizacao'', VData agora),
                  (''num_vetores'', VInt 0),
                  (''tem_mapeamento_ids'', VBool True)]
      in if dado \<noteq> []
         then dict_update base
                (filter (\<lambda>(k, v). k \<notin> set [''id'', ''dimensao'', ''data_criacao'']) dado)
         else base)"

text \<open>
  \<^verbatim>\<open>criar_indice\<close> (lines 162 to 234). An exception of a constructor is caught before
  anything is stored. The index and the empty mapping are stored before the metadata is
  built; an exception of \<^verbatim>\<open>IndiceMetadata\<close> is caught and the call returns \<^verbatim>\<open>False\<close>
  with both left in place.
\<close>

definition criar_indice :: "faiss_service \<Rightarrow> string \<Rightarrow> string \<Rightarrow> int \<Rightarrow> string
    \<Rightarrow> (string \<times> valor) list option \<Rightarrow> bool \<times> faiss_service" where
  "criar_indice s agora indice_id dimensao tipo extra =
     (if indices s indice_id \<noteq> None then (False, s)
      else
        case (if tipo = ''flat'' then faiss_IndexFlatL2 dimensao
              else if tipo = ''ivf''
              then (case faiss_IndexFlatL2 dimensao of
                      None \<Rightarrow> None
                    | Some quantizer \<Rightarrow> faiss_IndexIVFFlat quantizer dimensao 100 10)
              else if tipo = ''hnsw'' then faiss_IndexHNSWFlat dimensao 32
              else faiss_IndexFlatL2 dimensao) of
          None \<Rightarrow> (False, s)
        | Some ix \<Rightarrow>
            let s1 = s\<lparr>indices := (indices s)(indice_id \<mapsto> ix)\<rparr>;
                s2 = s1\<lparr>mapeamentos := (mapeamentos s1)(indice_id \<mapsto> [])\<rparr>
            in case IndiceMetadata_init agora (metadados_base agora indice_id dimensao tipo extra) of
                 None \<Rightarrow> (False, s2)
               | Some md \<Rightarrow> (True, s2\<lparr>metadados := (metadados s2)(indice_id \<mapsto> md)\<rparr>))"

text \<open>The entries of an optional dictionary argument: none when it is \<^verbatim>\<open>None\<close>.\<close>

definition entradas_de :: "(int \<times> documento) list option \<Rightarrow> (int \<times> documento) list" where
  "entradas_de mapeamento = (case mapeamento of None \<Rightarrow> [] | Some m \<Rightarrow> m)"

text \<open>The loop \<^verbatim>\<open>for idx, doc in mapeamento.items(): self.mapeamentos[indice_id][offset + idx] = doc\<close>.\<close>

fun deslocar_mapeamento :: "int \<Rightarrow> (int \<times> documento) list \<Rightarrow> (int \<times> documento) list
    \<Rightarrow> (int \<times> documento) list" where
  "deslocar_mapeamento offset [] atual = atual"
| "deslocar_mapeamento offset ((idx, doc) # resto) atual =
     deslocar_mapeamento offset resto (AList.update (offset + idx) doc atual)"

text \<open>
  \<^verbatim>\<open>adicionar_vetores\<close> (lines 236 to 285). Every exception inside the \<^verbatim>\<open>try\<close> block
  is caught and turned into \<^verbatim>\<open>False\<close>; what was mutated before it stays mutated.
  An absent or empty \<^verbatim>\<open>mapeamento\<close> is falsy and skips the loop; with entries, an id
  without a slot mapping raises \<^verbatim>\<open>KeyError\<close>, as an id without metadata does at the end.
\<close>

definition adicionar_vetores :: "faiss_service \<Rightarrow> string \<Rightarrow> string \<Rightarrow> ndarray
    \<Rightarrow> (int \<times> documento) list option \<Rightarrow> bool \<times> faiss_service" where
  "adicionar_vetores s agora indice_id vetores mapeamento =
     (case indices s indice_id of
        None \<Rightarrow> (False, s)
      | Some ix \<Rightarrow>
          if length (shape vetores) \<noteq> 2 then (False, s)
          else if int (shape vetores ! 1) \<noteq> ix_d ix then (False, s)
          else
            let offset = ntotal ix in
            case faiss_add ix vetores of
              None \<Rightarrow> (False, s)
            | Some ix' \<Rightarrow>
                let s1 = s\<lparr>indices := (indices s)(indice_id \<mapsto> ix')\<rparr>;
                    entradas = entradas_de mapeamento
                in
                case (if entradas = [] then Some s1
                      else (case mapeamentos s1 indice_id of
                              None \<Rightarrow> None
                            | Some atual \<Rightarrow>
                                Some (s1\<lparr>mapeamentos := (mapeamentos s1)(indice_id \<mapsto>
                                        deslocar_mapeamento offset entradas atual)\<rparr>))) of
                  None \<Rightarrow> (False, s1)
                | Some s2 \<Rightarrow>
                    (case metadados s2 indice_id of
                       None \<Rightarrow> (False, s2)
                     | Some md \<Rightarrow>
                         (True, s2\<lparr>metadados := (metadados s2)(indice_id \<mapsto>
                                    md\<lparr>md_num_vetores := ntotal ix',
                                       md_ultima_atualizacao := agora\<rparr>)\<rparr>)))"




subsection \<open>Files\<close>

text \<open>
  The directory \<^verbatim>\<open>settings.DIRETORIO_FAISS\<close>: file names and what the files hold. A file
  is an index blob, a JSON object of documents (a slot mapping, its keys still
  strings), a JSON object of scalars (metadata), or anything else. A JSON object whose
  values are no objects is not read as a mapping here.
\<close>

datatype conteudo =
    ArqIndice faiss_index
  | ArqMapeamento "(string \<times> documento) list"
  | ArqMetadados "(string \<times> valor) list"
  | ArqInvalido

type_synonym diretorio = "(string \<times> conteudo) list"

definition startswith :: "string \<Rightarrow> string \<Rightarrow> bool" where
  "startswith s p = (take (length p) s = p)"

definition endswith :: "string \<Rightarrow> string \<Rightarrow> bool" where
  "endswith s p = (length p \<le> length s \<and> drop (length s - length p) s = p)"

text \<open>\<^verbatim>\<open>s.split(c)\<close> for a separator of one character.\<close>

fun split_em :: "char \<Rightarrow> string \<Rightarrow> string list" where
  "split_em c [] = [[]]"
| "split_em c (x # xs) =
     (if x = c then [] # split_em c xs
      else (case split_em c xs of p # ps \<Rightarrow> (x # p) # ps | [] \<Rightarrow> [[x]]))"

text \<open>\<^verbatim>\<open>arquivos.sort(reverse=True); arquivos[0]\<close>.\<close>

definition mais_recente :: "string list \<Rightarrow> string option" where
  "mais_recente arquivos = (case rev (sort arquivos) of [] \<Rightarrow> None | a # _ \<Rightarrow> Some a)"

text \<open>The comprehension \<^verbatim>\<open>{int(k): v for k, v in mapeamento_raw.items()}\<close>: it raises at
  the first key that is no integer; of two keys with one value the later entry stays.\<close>

fun chaves_inteiras :: "(string \<times> documento) list \<Rightarrow> (int \<times> documento) list
    \<Rightarrow> (int \<times> documento) list option" where
  "chaves_inteiras [] acc = Some acc"
| "chaves_inteiras ((k, v) # resto) acc =
     (case py_int k of
        None \<Rightarrow> None
      | Some i \<Rightarrow> chaves_inteiras resto (AList.update i v acc))"

text \<open>\<^verbatim>\<open>faiss.read_index\<close>, and \<^verbatim>\<open>json.load\<close> of the two JSON files followed by what the
  services do with the object; \<open>None\<close> is a raised exception.\<close>

definition read_index :: "diretorio \<Rightarrow> string \<Rightarrow> faiss_index option" where
  "read_index dir nome = (case map_of dir nome of Some (ArqIndice ix) \<Rightarrow> Some ix | _ \<Rightarrow> None)"

definition ler_mapeamento :: "diretorio \<Rightarrow> string \<Rightarrow> (int \<times> documento) list option" where
  "ler_mapeamento dir nome =
     (case map_of dir nome of Some (ArqMapeamento bruto) \<Rightarrow> chaves_inteiras bruto [] | _ \<Rightarrow> None)"

definition ler_metadados :: "string \<Rightarrow> diretorio \<Rightarrow> string \<Rightarrow> indice_metadata option" where
  "ler_metadados agora dir nome =
     (case map_of dir nome of
        Some (ArqMetadados bruto) \<Rightarrow> IndiceMetadata_init agora bruto
      | _ \<Rightarrow> None)"

text \<open>The names of the mapping and metadata files that \<^verbatim>\<open>carregar_indice\<close> derives from
  the name of the index file (lines 112 to 122); an empty timestamp is falsy.\<close>

definition extrair_timestamp :: "string \<Rightarrow> string option" where
  "extrair_timestamp nome_arquivo =
     (let partes = split_em (CHR ''_'') nome_arquivo
      in if length partes > 1
         then (case split_em (CHR ''.'') (partes ! 1) of t # _ \<Rightarrow> Some t | [] \<Rightarrow> None)
         else None)"

definition nome_derivado :: "string \<Rightarrow> string option \<Rightarrow> string \<Rightarrow> string option" where
  "nome_derivado indice_id timestamp sufixo =
     (case timestamp of
        None \<Rightarrow> None
      | Some t \<Rightarrow> if t = [] then None else Some (indice_id @ ''_'' @ t @ sufixo))"

text \<open>
  The first part of \<^verbatim>\<open>carregar_indice\<close> (lines 97 to 122): the name of the index
  file, given or the newest of the id, and the names derived from it. \<open>None\<close> is the
  early return when the id has no index file.
\<close>

definition localizar_indice :: "diretorio \<Rightarrow> string \<Rightarrow> string option
    \<Rightarrow> (string \<times> string option \<times> string option) option" where
  "localizar_indice dir indice_id nome_arquivo =
     (case (case nome_arquivo of
              Some n \<Rightarrow> Some n
            | None \<Rightarrow> mais_recente (filter (\<lambda>f. startswith f (indice_id @ ''_'') \<and> endswith f ''.index'')
                                     (map fst dir))) of
        None \<Rightarrow> None
      | Some nome \<Rightarrow>
          let timestamp = extrair_timestamp nome
          in Some (nome, nome_derivado indice_id timestamp ''_mapping.json'',
                   nome_derivado indice_id timestamp ''_metadata.json''))"

text \<open>A derived file is read when its name exists and the file exists.\<close>

definition existente :: "diretorio \<Rightarrow> string option \<Rightarrow> string option" where
  "existente dir caminho =
     (case caminho of None \<Rightarrow> None | Some c \<Rightarrow> if map_of dir c \<noteq> None then Some c else None)"

text \<open>
  \<^verbatim>\<open>carregar_indice\<close> (lines 85 to 160). The index is stored as soon as it is read and
  the mapping as soon as it is parsed; an exception later on returns \<^verbatim>\<open>False\<close> and
  leaves them stored. Nothing compares the three files with each other.
\<close>

definition carregar_indice :: "diretorio \<Rightarrow> faiss_service \<Rightarrow> string \<Rightarrow> string \<Rightarrow> string option
    \<Rightarrow> bool \<times> faiss_service" where
  "carregar_indice dir s agora indice_id nome_arquivo =
     (case localizar_indice dir indice_id nome_arquivo of
        None \<Rightarrow> (False, s)
      | Some (nome, nome_mapeamento, nome_metadata) \<Rightarrow>
          case read_index dir nome of
            None \<Rightarrow> (False, s)
          | Some ix \<Rightarrow>
              let s1 = s\<lparr>indices := (indices s)(indice_id \<mapsto> ix)\<rparr>;
                  s2 = s1\<lparr>mapeamentos := (mapeamentos s1)(indice_id \<mapsto> [])\<rparr>
              in
              case (case existente dir nome_mapeamento of
                      None \<Rightarrow> Some []
                    | Some nm \<Rightarrow> ler_mapeamento dir nm) of
                None \<Rightarrow> (False, s2)
              | Some m \<Rightarrow>
                  let s3 = s2\<lparr>mapeamentos := (mapeamentos s2)(indice_id \<mapsto> m)\<rparr> in
                  case existente dir nome_metadata of
                    Some nd \<Rightarrow>
                      (case ler_metadados agora dir nd of
                         None \<Rightarrow> (False, s3)
                       | Some md \<Rightarrow> (True, s3\<lparr>metadados := (metadados s3)(indice_id \<mapsto> md)\<rparr>))
                  | None \<Rightarrow>
                      (True, s3\<lparr>metadados := (metadados s3)(indice_id \<mapsto>
                          \<lparr>md_id = indice_id, md_nome = nome_padrao indice_id, md_dimensao = ix_d ix,
                           md_modelo_embeddings = ''desconhecido'', md_num_vetores = ntotal ix,
                           md_data_criacao = agora, md_ultima_atualizacao = agora,
                           md_tem_mapeamento_ids = (length m > 0)\<rparr>)\<rparr>))"

section \<open>EmbeddingsService\<close>

text \<open>
  The fields of \<^verbatim>\<open>EmbeddingsService.__init__\<close> that the operations below read or
  write. The cache is a dictionary from keys to vectors, in insertion order. Two
  counters record the effects on the outside: \<open>chamadas\<close> counts the requests sent to
  the embedding provider, \<open>num_salvamentos\<close> the runs of \<^verbatim>\<open>salvar_cache\<close>.
\<close>

record embeddings_service =
  modelo_embeddings :: string
  dimensao_embeddings :: nat
  cache_embeddings :: "(string \<times> real list) list"
  index :: "faiss_index option"
  indice_metadata :: "indice_metadata option"
  id_para_documento :: "(int \<times> documento) list"
  chamadas :: nat
  num_salvamentos :: nat

text \<open>
  The provider \<^verbatim>\<open>self.client.embeddings.create(model, input)\<close>: what the request
  number \<open>n\<close> answers for a model and a list of texts, \<open>None\<close> when it raises, and else
  the embeddings of \<^verbatim>\<open>response.data\<close>. The hash \<^verbatim>\<open>hashlib.md5(...).hexdigest()\<close> is
  the parameter \<open>md5\<close>.
\<close>

type_synonym provedor = "nat \<Rightarrow> string \<Rightarrow> string list \<Rightarrow> real list list option"

definition chave_cache :: "(string \<Rightarrow> string) \<Rightarrow> embeddings_service \<Rightarrow> string \<Rightarrow> string" where
  "chave_cache md5 s texto = md5 texto @ ''_'' @ modelo_embeddings s"

text \<open>\<^verbatim>\<open>salvar_cache\<close> (lines 107 to 129) writes one more snapshot file and changes
  nothing in memory; a failure to write is logged and swallowed.\<close>

definition salvar_cache :: "embeddings_service \<Rightarrow> embeddings_service" where
  "salvar_cache s = s\<lparr>num_salvamentos := num_salvamentos s + 1\<rparr>"

definition zeros :: "embeddings_service \<Rightarrow> real list" where
  "zeros s = replicate (dimensao_embeddings s) 0"

text \<open>\<^verbatim>\<open>gerar_embedding\<close> (lines 131 to 173). \<^verbatim>\<open>response.data[0]\<close> of an empty answer
  raises inside the \<^verbatim>\<open>try\<close> block as a failed request does.\<close>

definition gerar_embedding :: "(string \<Rightarrow> string) \<Rightarrow> provedor \<Rightarrow> embeddings_service \<Rightarrow> string
    \<Rightarrow> real list \<times> embeddings_service" where
  "gerar_embedding md5 cliente s texto =
     (let chave = chave_cache md5 s texto in
      case map_of (cache_embeddings s) chave of
        Some e \<Rightarrow> (e, s)
      | None \<Rightarrow>
          let s1 = s\<lparr>chamadas := chamadas s + 1\<rparr> in
          case cliente (chamadas s) (modelo_embeddings s) [texto] of
            None \<Rightarrow> (zeros s1, s1)
          | Some [] \<Rightarrow> (zeros s1, s1)
          | Some (embedding # _) \<Rightarrow>
              let s2 = s1\<lparr>cache_embeddings := AList.update chave embedding (cache_embeddings s1)\<rparr>;
                  s3 = (if length (cache_embeddings s2) mod 10 = 0 then salvar_cache s2 else s2)
              in (embedding, s3))"

text \<open>The first loop of \<^verbatim>\<open>gerar_embeddings_batch\<close>: the cached vector of each text, or
  \<^verbatim>\<open>None\<close>; and the positions and texts left to process.\<close>

definition consultar_cache :: "(string \<Rightarrow> string) \<Rightarrow> embeddings_service \<Rightarrow> string list
    \<Rightarrow> real list option list" where
  "consultar_cache md5 s textos = map (\<lambda>texto. map_of (cache_embeddings s) (chave_cache md5 s texto)) textos"

definition para_processar :: "(string \<Rightarrow> string) \<Rightarrow> embeddings_service \<Rightarrow> string list
    \<Rightarrow> (nat \<times> string) list" where
  "para_processar md5 s textos =
     filter (\<lambda>(i, texto). map_of (cache_embeddings s) (chave_cache md5 s texto) = None)
       (zip [0..<length textos] textos)"

text \<open>The loop over \<^verbatim>\<open>response.data\<close>: each embedding goes to the cache and to its
  position in the result. An answer longer than the request raises at
  \<^verbatim>\<open>indices_para_processar[i]\<close>, which is the result \<open>False\<close>.\<close>

fun processar_resposta :: "(string \<Rightarrow> string) \<Rightarrow> real list list \<Rightarrow> (nat \<times> string) list
    \<Rightarrow> embeddings_service \<times> real list option list \<Rightarrow> bool \<times> embeddings_service \<times> real list option list" where
  "processar_resposta md5 [] pendentes (s, embeddings) = (True, s, embeddings)"
| "processar_resposta md5 (e # es) [] (s, embeddings) = (False, s, embeddings)"
| "processar_resposta md5 (e # es) ((idx, texto) # pendentes) (s, embeddings) =
     processar_resposta md5 es pendentes
       (s\<lparr>cache_embeddings := AList.update (chave_cache md5 s texto) e (cache_embeddings s)\<rparr>,
        embeddings[idx := Some e])"

text \<open>The handler: a vector of zeros at every position still \<^verbatim>\<open>None\<close>.\<close>

definition preencher_zeros :: "embeddings_service \<Rightarrow> nat list \<Rightarrow> real list option list
    \<Rightarrow> real list option list" where
  "preencher_zeros s posicoes embeddings =
     fold (\<lambda>idx acc. if acc ! idx = None then acc[idx := Some (zeros s)] else acc) posicoes embeddings"

text \<open>\<^verbatim>\<open>gerar_embeddings_batch\<close> (lines 175 to 244). The cache is saved after every
  answer that was processed to its end. A position can stay \<^verbatim>\<open>None\<close> when the answer
  is shorter than the request.\<close>

definition gerar_embeddings_batch :: "(string \<Rightarrow> string) \<Rightarrow> provedor \<Rightarrow> embeddings_service
    \<Rightarrow> string list \<Rightarrow> real list option list \<times> embeddings_service" where
  "gerar_embeddings_batch md5 cliente s textos =
     (let embeddings = consultar_cache md5 s textos;
          pendentes = para_processar md5 s textos
      in
      if pendentes = [] then (embeddings, s)
      else
        let s1 = s\<lparr>chamadas := chamadas s + 1\<rparr> in
        case cliente (chamadas s) (modelo_embeddings s) (map snd pendentes) of
          None \<Rightarrow> (preencher_zeros s1 (map fst pendentes) embeddings, s1)
        | Some resposta \<Rightarrow>
            (case processar_resposta md5 resposta pendentes (s1, embeddings) of
               (True, s2, embeddings2) \<Rightarrow> (embeddings2, salvar_cache s2)
             | (False, s2, embeddings2) \<Rightarrow> (preencher_zeros s2 (map fst pendentes) embeddings2, s2)))"

subsection \<open>Loading the default index\<close>

text \<open>\<^verbatim>\<open>base_name.replace('.index', '')\<close>.\<close>

function sem_index :: "string \<Rightarrow> string" where
  "sem_index s =
     (if s = [] then []
      else if startswith s ''.index'' then sem_index (drop 6 s)
      else hd s # sem_index (tl s))"
  by pat_completeness auto
termination
  by (relation "measure length") (auto simp: startswith_def)

text \<open>The first file of a listing, filtered and sorted downwards, or \<^verbatim>\<open>None\<close>.\<close>

definition ultimo_com :: "diretorio \<Rightarrow> string \<Rightarrow> string \<Rightarrow> string option" where
  "ultimo_com dir prefixo sufixo =
     mais_recente (filter (\<lambda>f. startswith f prefixo \<and> endswith f sufixo) (map fst dir))"

text \<open>The two date formats of the fallback metadata, read off the 14 digits:
  \<^verbatim>\<open>%Y%m%d%H%M%S\<close> and \<^verbatim>\<open>%d/%m/%Y %H:%M\<close>.\<close>

definition data_legivel :: "string \<Rightarrow> string" where
  "data_legivel t = take 2 (drop 6 t) @ ''/'' @ take 2 (drop 4 t) @ ''/'' @ take 4 t @ '' ''
     @ take 2 (drop 8 t) @ '':'' @ take 2 (drop 10 t)"

text \<open>
  The first part of \<^verbatim>\<open>carregar_indice_faiss\<close> (lines 375 to 418). A path is the name of
  a file of the directory. Without a path (or with an empty one) the newest index file
  is taken, and the newest mapping and metadata files whose names start as its name
  does up to the first underscore; with a path, the files named after it, if they
  exist. \<open>None\<close> is the early return when there is no index file.
\<close>

definition localizar_indice_faiss :: "diretorio \<Rightarrow> string option
    \<Rightarrow> (string \<times> string option \<times> string option) option" where
  "localizar_indice_faiss dir caminho_indice =
     (if (case caminho_indice of None \<Rightarrow> True | Some c \<Rightarrow> c = [])
      then (case ultimo_com dir [] ''.index'' of
              None \<Rightarrow> None
            | Some nome \<Rightarrow>
                let prefixo = (case split_em (CHR ''_'') nome of p # _ \<Rightarrow> p | [] \<Rightarrow> [])
                in Some (nome, ultimo_com dir prefixo ''_mapping.json'',
                         ultimo_com dir prefixo ''_metadata.json''))
      else (case caminho_indice of
              None \<Rightarrow> None
            | Some c \<Rightarrow>
                Some (c, existente dir (Some (sem_index c @ ''_mapping.json'')),
                         existente dir (Some (sem_index c @ ''_metadata.json'')))))"

text \<open>
  \<^verbatim>\<open>carregar_indice_faiss\<close> (lines 363 to 457). As in \<^verbatim>\<open>FaissService.carregar_indice\<close>,
  what was assigned before an exception stays, and nothing compares the files.
\<close>

definition carregar_indice_faiss :: "diretorio \<Rightarrow> embeddings_service \<Rightarrow> string \<Rightarrow> string option
    \<Rightarrow> bool \<times> embeddings_service" where
  "carregar_indice_faiss dir s agora caminho_indice =
     (case localizar_indice_faiss dir caminho_indice of
        None \<Rightarrow> (False, s)
      | Some (caminho, caminho_mapeamento, caminho_metadata) \<Rightarrow>
          case read_index dir caminho of
            None \<Rightarrow> (False, s)
          | Some ix \<Rightarrow>
              let s1 = s\<lparr>index := Some ix\<rparr> in
              case (case existente dir caminho_mapeamento of
                      None \<Rightarrow> Some []
                    | Some cm \<Rightarrow> ler_mapeamento dir cm) of
                None \<Rightarrow> (False, s1)
              | Some m \<Rightarrow>
                  let s2 = s1\<lparr>id_para_documento := m\<rparr> in
                  case existente dir caminho_metadata of
                    Some cd \<Rightarrow>
                      (case ler_metadados agora dir cd of
                         None \<Rightarrow> (False, s2)
                       | Some md \<Rightarrow> (True, s2\<lparr>indice_metadata := Some md\<rparr>))
                  | None \<Rightarrow>
                      (True, s2\<lparr>indice_metadata := Some
                         \<lparr>md_id = ''indice_carregado_'' @ agora,
                          md_nome = CHR 0xC3 # CHR 0x8D # ''ndice carregado em '' @ data_legivel agora,
                          md_dimensao = ix_d ix,
                          md_modelo_embeddings = modelo_embeddings s2,
                          md_num_vetores = ntotal ix,
                          md_data_criacao = agora, md_ultima_atualizacao = agora,
                          md_tem_mapeamento_ids = (length m > 0)\<rparr>\<rparr>))"

subsection \<open>Filtered search\<close>

text \<open>The inner loop of \<^verbatim>\<open>EmbeddingsService.buscar\<close> over \<^verbatim>\<open>filtro.items()\<close> (lines 501 to
  514): an attribute is looked up first, then a dictionary entry; a document with
  neither fails the filter.\<close>

fun atende_filtro :: "documento \<Rightarrow> (string \<times> valor) list \<Rightarrow> bool" where
  "atende_filtro doc [] = True"
| "atende_filtro doc ((chave, v) # resto) =
     (if hasattr doc chave
      then (case getattr doc chave of
              None \<Rightarrow> False
            | Some x \<Rightarrow> if py_ne x v then False else atende_filtro doc resto)
      else if contem doc chave
      then (case item doc chave of
              None \<Rightarrow> False
            | Some x \<Rightarrow> if py_ne x v then False else atende_filtro doc resto)
      else False)"

text \<open>The outer loop (lines 491 to 519) over the slots and distances of the first row.
  An absent or empty filter is falsy and filters nothing.\<close>

fun montar_resultados :: "(int \<times> documento) list \<Rightarrow> (string \<times> valor) list option \<Rightarrow> (int \<times> real) list
    \<Rightarrow> (documento \<times> real) list" where
  "montar_resultados m filtro [] = []"
| "montar_resultados m filtro ((idx, distancia) # resto) =
     (if idx = - 1 then montar_resultados m filtro resto
      else (case map_of m idx of
              None \<Rightarrow> montar_resultados m filtro resto
            | Some doc \<Rightarrow>
                if (case filtro of None \<Rightarrow> False | Some f \<Rightarrow> f \<noteq> [] \<and> \<not> atende_filtro doc f)
                then montar_resultados m filtro resto
                else (doc, 1 - distancia / 2) # montar_resultados m filtro resto))"

text \<open>\<^verbatim>\<open>EmbeddingsService.buscar\<close> (lines 459 to 525).\<close>

definition EmbeddingsService_buscar :: "biblioteca \<Rightarrow> (string \<Rightarrow> string)
    \<Rightarrow> provedor \<Rightarrow> embeddings_service \<Rightarrow> string \<Rightarrow> int \<Rightarrow> (string \<times> valor) list option
    \<Rightarrow> (documento \<times> real) list \<times> embeddings_service" where
  "EmbeddingsService_buscar bib md5 cliente s texto_consulta k filtro =
     (case index s of
        None \<Rightarrow> ([], s)
      | Some _ \<Rightarrow>
          let (embedding_consulta, s1) = gerar_embedding md5 cliente s texto_consulta;
              query_vector = matriz_de_vetor embedding_consulta
          in
          case index s1 of
            None \<Rightarrow> ([], s1)
          | Some ix \<Rightarrow>
              (case faiss_search bib ix query_vector k of
                 None \<Rightarrow> ([], s1)
               | Some (distances, slots) \<Rightarrow>
                   (case (slots, distances) of
                      (i0 # _, d0 # _) \<Rightarrow> (montar_resultados (id_para_documento s1) filtro (zip i0 d0), s1)
                    | _ \<Rightarrow> ([], s1))))"

section \<open>Initial states and runs\<close>

text \<open>The services as their constructors leave them; the model name and the dimension
  come from the settings.\<close>

definition FaissService_init :: faiss_service where
  "FaissService_init = \<lparr>indices = Map.empty, metadados = Map.empty, mapeamentos = Map.empty\<rparr>"

definition EmbeddingsService_init :: "string \<Rightarrow> nat \<Rightarrow> embeddings_service" where
  "EmbeddingsService_init modelo dimensao =
     \<lparr>modelo_embeddings = modelo, dimensao_embeddings = dimensao, cache_embeddings = [],
      index = None, indice_metadata = None, id_para_documento = [],
      chamadas = 0, num_salvamentos = 0\<rparr>"

text \<open>The vector count of an index of the store and the document of a slot.\<close>

definition contagem :: "faiss_service \<Rightarrow> string \<Rightarrow> int" where
  "contagem s indice_id = (case indices s indice_id of None \<Rightarrow> 0 | Some ix \<Rightarrow> ntotal ix)"

definition documento_do_slot :: "faiss_service \<Rightarrow> string \<Rightarrow> int \<Rightarrow> documento option" where
  "documento_do_slot s indice_id slot =
     (case mapeamentos s indice_id of None \<Rightarrow> None | Some m \<Rightarrow> map_of m slot)"

text \<open>A sequence of calls of \<^verbatim>\<open>adicionar_vetores\<close> on one index: for each batch (its
  time, vectors and mapping) the state before, the batch, the result and the state
  after.\<close>

type_synonym lote = "string \<times> ndarray \<times> (int \<times> documento) list option"

fun adicionar_lotes :: "faiss_service \<Rightarrow> string \<Rightarrow> lote list
    \<Rightarrow> (faiss_service \<times> lote \<times> bool \<times> faiss_service) list" where
  "adicionar_lotes s indice_id [] = []"
| "adicionar_lotes s indice_id ((agora, vetores, mapeamento) # lotes) =
     (s, (agora, vetores, mapeamento),
      fst (adicionar_vetores s agora indice_id vetores mapeamento),
      snd (adicionar_vetores s agora indice_id vetores mapeamento))
     # adicionar_lotes (snd (adicionar_vetores s agora indice_id vetores mapeamento)) indice_id lotes"

text \<open>A flat index without vectors. An example: the service after
  \<^verbatim>\<open>criar_indice("docs", 2)\<close>, and two documents.\<close>

definition indice_plano :: "int \<Rightarrow> faiss_index" where
  "indice_plano dm = \<lparr>ix_classe = IndexFlatL2, ix_d = dm, ix_is_trained = True, ix_xb = []\<rparr>"

definition servico_exemplo :: faiss_service where
  "servico_exemplo = snd (criar_indice FaissService_init ''20240101120000'' ''docs'' 2 ''flat'' None)"

definition doc_a :: documento where
  "doc_a = DocDict [(''tipo'', VStr ''fatura''), (''cliente_id'', VStr ''c1'')]"

definition doc_b :: documento where
  "doc_b = DocDict [(''tipo'', VStr ''cliente_info''), (''cliente_id'', VStr ''c1'')]"

text \<open>Examples for the embeddings: a stand-in for the hash, a provider that answers,
  one that fails on its first request, one that always fails, a service with an empty
  cache and one with nine cached entries.\<close>

definition md5_exemplo :: "string \<Rightarrow> string" where
  "md5_exemplo texto = ''h'' @ texto"

definition cliente_exemplo :: provedor where
  "cliente_exemplo n modelo textos = Some (map (\<lambda>texto. [1, real (length texto)]) textos)"

definition cliente_instavel :: provedor where
  "cliente_instavel n modelo textos =
     (if n = 0 then None else Some (map (\<lambda>texto. [1, real (length texto)]) textos))"

definition cliente_fora :: provedor where
  "cliente_fora n modelo textos = None"

definition es_nove :: embeddings_service where
  "es_nove = (EmbeddingsService_init ''modelo'' 2)\<lparr>cache_embeddings :=
     [(''k1'', [1, 1]), (''k2'', [1, 2]), (''k3'', [1, 3]), (''k4'', [1, 4]), (''k5'', [1, 5]),
      (''k6'', [1, 6]), (''k7'', [1, 7]), (''k8'', [1, 8]), (''k9'', [1, 9])]\<rparr>"

definition es_exemplo :: embeddings_service where
  "es_exemplo = EmbeddingsService_init ''modelo'' 2"

text \<open>
  Examples for the search. A library that computes every distance exactly, whose
  approximate indexes visit nothing, on a machine that can allocate a thousand results;
  and a service whose default index holds three vectors, two of them with a document,
  both dictionaries.
\<close>

definition l2sqr :: "real list \<Rightarrow> real list \<Rightarrow> real" where
  "l2sqr x y = sum_list (map (\<lambda>(a, b). (a - b)\<^sup>2) (zip x y))"

definition bib_exemplo :: biblioteca where
  "bib_exemplo = \<lparr>bib_mede = (\<lambda>q x. Some (l2sqr q x)), bib_visita = (\<lambda>ix q. []), bib_k_max = 1000\<rparr>"

definition es_busca :: embeddings_service where
  "es_busca = (EmbeddingsService_init ''modelo'' 2)\<lparr>
     index := Some \<lparr>ix_classe = IndexFlatL2, ix_d = 2, ix_is_trained = True,
                     ix_xb = [[1, 3], [0, 0], [1, 2]]\<rparr>,
     id_para_documento := [(0, doc_a), (1, doc_b)]\<rparr>"

text \<open>Examples for loading: a flat index of dimension 3 with one vector, and a directory
  with its snapshot, whose metadata give another dimension and another count and whose
  mapping has slots outside the index.\<close>

definition indice_exemplo :: faiss_index where
  "indice_exemplo = \<lparr>ix_classe = IndexFlatL2, ix_d = 3, ix_is_trained = True, ix_xb = [[1, 0, 0]]\<rparr>"

definition diretorio_exemplo :: diretorio where
  "diretorio_exemplo =
     [(''docs_20240101120000.index'', ArqIndice indice_exemplo),
      (''docs_20240101120000_mapping.json'', ArqMapeamento [(''0'', doc_a), (''7'', doc_b), (''-2'', doc_a)]),
      (''docs_20240101120000_metadata.json'',
         ArqMetadados [(''id'', VStr ''docs''), (''nome'', VStr ''Faturas''), (''dimensao'', VInt 5),
           (''modelo_embeddings'', VStr ''modelo''), (''num_vetores'', VInt 9),
           (''data_criacao'', VData ''20240101120000''),
           (''ultima_atualizacao'', VData ''20240101120000''),
           (''tem_mapeamento_ids'', VBool True)])]"

text \<open>What a mapping file says: each entry under the integer of its key, in the order
  of the file. Read as a dictionary from the end, so that of two entries of one
  integer the later one counts.\<close>

definition rechaveado :: "(string \<times> documento) list \<Rightarrow> (int \<times> documento) list" where
  "rechaveado bruto = List.map_filter (\<lambda>(k, v). map_option (\<lambda>i. (i, v)) (py_int k)) bruto"





section \<open>Reading integers\<close>

text \<open>Examples of \<^verbatim>\<open>int\<close> on strings: blanks and underscores, a control character that
  is no blank, an Arabic-Indic digit three, and a no-break space.\<close>

lemma pyint_ex: "py_int ''7'' = Some 7" "py_int ''-2'' = Some (- 2)" "py_int ''0'' = Some 0"
  "py_int '' 1_0 '' = Some 10" "py_int ''1__0'' = None" "py_int ''x'' = None" "py_int '''' = None"
  "py_int ''5'' = Some 5" "py_int [CHR 0x1C, CHR ''5''] = None"
  "py_int [CHR 0xD9, CHR 0xA3] = Some 3" "py_int [CHR 0xC2, CHR 0xA0, CHR ''5''] = Some 5"
  by (simp_all add: py_int_def ponto_def continuacao_def espacos_unicode_def decimal_def
      zeros_decimais_def limitados_def espaco_def digito_def)

section \<open>Adding vectors\<close>

text \<open>What the loop over the supplied mapping leaves in the slot mapping.\<close>

lemma map_of_deslocar:
  "map_of (deslocar_mapeamento offset es atual) =
   (\<lambda>g. case map_of (rev es) (g - offset) of Some d \<Rightarrow> Some d | None \<Rightarrow> map_of atual g)"
proof (induction es arbitrary: atual)
  case Nil show ?case by simp
next
  case (Cons e es)
  obtain idx doc where e: "e = (idx, doc)" by (cases e)
  show ?case
    by (auto simp: e Cons.IH update_conv' fun_eq_iff map_add_def split: option.splits)
qed

lemma deslocar_guarda:
  assumes "distinct (map fst es)" "(slot, doc) \<in> set es"
  shows "map_of (deslocar_mapeamento offset es atual) (offset + slot) = Some doc"
proof -
  have "map_of (rev es) slot = Some doc"
    using assms by (intro map_of_is_SomeI) (simp_all add: rev_map[symmetric])
  then show ?thesis by (simp add: map_of_deslocar)
qed

lemma adicionar_ok:
  assumes "indices s indice_id = Some ix" "ix_is_trained ix"
    "metadados s indice_id \<noteq> None" "mapeamentos s indice_id \<noteq> None"
    "length (shape v) = 2" "int (shape v ! 1) = ix_d ix"
    "distinct (map fst (entradas_de m))"
  shows "fst (adicionar_vetores s agora indice_id v m)"
    and "contagem (snd (adicionar_vetores s agora indice_id v m)) indice_id = contagem s indice_id + int (shape v ! 0)"
    and "\<forall>(slot, doc) \<in> set (entradas_de m). documento_do_slot (snd (adicionar_vetores s agora indice_id v m)) indice_id (contagem s indice_id + slot) = Some doc"
    and "\<exists>ix'. indices (snd (adicionar_vetores s agora indice_id v m)) indice_id = Some ix' \<and> ix_is_trained ix' \<and> ix_d ix' = ix_d ix"
    and "metadados (snd (adicionar_vetores s agora indice_id v m)) indice_id \<noteq> None"
    and "mapeamentos (snd (adicionar_vetores s agora indice_id v m)) indice_id \<noteq> None"
  using assms
  by (auto simp: adicionar_vetores_def faiss_add_def Let_def contagem_def ntotal_def linhas_def
      documento_do_slot_def entradas_de_def deslocar_guarda split: option.splits)




lemma servico_exemplo_eq:
  "servico_exemplo =
     \<lparr>indices = [''docs'' \<mapsto> indice_plano 2],
      metadados = [''docs'' \<mapsto> \<lparr>md_id = ''docs'', md_nome = nome_padrao ''docs'', md_dimensao = 2,
         md_modelo_embeddings = ''n'' @ [CHR 0xC3, CHR 0xA3] @ ''o especificado'', md_num_vetores = 0,
         md_data_criacao = ''20240101120000'', md_ultima_atualizacao = ''20240101120000'',
         md_tem_mapeamento_ids = True\<rparr>],
      mapeamentos = [''docs'' \<mapsto> []]\<rparr>"
  by (simp add: servico_exemplo_def criar_indice_def FaissService_init_def metadados_base_def
      IndiceMetadata_init_def faiss_IndexFlatL2_def int32_def indice_plano_def Let_def)

text \<open>
  C1, as the code has it. Take an index of the store that is trained (every flat and
  HNSW index is; an inverted-file index fresh from \<^verbatim>\<open>criar_indice\<close> is not) and that has
  its entries in the metadata and mapping dictionaries. For every sequence of batches
  of two-dimensional arrays whose second dimension is the dimension of the index, each
  with a mapping of distinct local slots, every call of \<^verbatim>\<open>adicionar_vetores\<close> returns
  \<^verbatim>\<open>True\<close>, the vector count after the call is the count before plus the number of rows
  of the batch, and every supplied entry with local slot \<open>slot\<close> is found in the slot
  mapping at the count before plus \<open>slot\<close>.
\<close>

theorem adicionar_lotes_offsets:
  assumes "indices s indice_id = Some ix" and "ix_is_trained ix"
    and "metadados s indice_id \<noteq> None" and "mapeamentos s indice_id \<noteq> None"
    and "list_all (\<lambda>(agora, v, m). length (shape v) = 2 \<and> int (shape v ! 1) = ix_d ix
           \<and> distinct (map fst (entradas_de m))) lotes"
  shows "map (\<lambda>(antes, l, ok, depois). l) (adicionar_lotes s indice_id lotes) = lotes \<and>
         list_all (\<lambda>(antes, (agora, v, m), ok, depois).
             ok \<and> contagem depois indice_id = contagem antes indice_id + int (shape v ! 0)
             \<and> list_all (\<lambda>(slot, doc).
                   documento_do_slot depois indice_id (contagem antes indice_id + slot) = Some doc)
                 (entradas_de m))
           (adicionar_lotes s indice_id lotes)"
  using assms
proof (induction lotes arbitrary: s ix)
  case Nil
  show ?case by simp
next
  case (Cons l lotes)
  obtain agora v m where l: "l = (agora, v, m)" by (cases l)
  let ?r = "adicionar_vetores s agora indice_id v m"
  have pre: "length (shape v) = 2" "int (shape v ! 1) = ix_d ix" "distinct (map fst (entradas_de m))"
    using Cons.prems(5) by (auto simp: l)
  note ok = adicionar_ok [OF Cons.prems(1-4) pre, of agora]
  obtain ix' where ix': "indices (snd ?r) indice_id = Some ix'" "ix_is_trained ix'" "ix_d ix' = ix_d ix"
    using ok(4) by blast
  have resto: "list_all (\<lambda>(agora, v, m). length (shape v) = 2 \<and> int (shape v ! 1) = ix_d ix'
        \<and> distinct (map fst (entradas_de m))) lotes"
    using Cons.prems(5) ix'(3) by simp
  note IH = Cons.IH [OF ix'(1,2) ok(5,6) resto]
  have aqui: "list_all (\<lambda>(slot, doc).
      documento_do_slot (snd ?r) indice_id (contagem s indice_id + slot) = Some doc) (entradas_de m)"
    using ok(3) by (simp add: list_all_iff)
  show ?case
    using ok(1,2) aqui IH by (simp add: l)
qed

theorem adicionar_lotes_offsets_witness:
  "indices servico_exemplo ''docs'' = Some (indice_plano 2) \<and>
   ix_is_trained (indice_plano 2) \<and>
   metadados servico_exemplo ''docs'' \<noteq> None \<and> mapeamentos servico_exemplo ''docs'' \<noteq> None \<and>
   map (\<lambda>(antes, l, ok, depois). (ok, contagem antes ''docs'', contagem depois ''docs''))
     (adicionar_lotes servico_exemplo ''docs''
        [(''t1'', \<lparr>shape = [2, 2], dados = [1, 0, 0, 1]\<rparr>, Some [(0, doc_a), (1, doc_b)]),
         (''t2'', \<lparr>shape = [1, 2], dados = [1, 1]\<rparr>, Some [(0, doc_b)])])
     = [(True, 0, 2), (True, 2, 3)] \<and>
   list_all (\<lambda>(antes, (agora, v, m), ok, depois).
       list_all (\<lambda>(slot, doc).
         documento_do_slot depois ''docs'' (contagem antes ''docs'' + slot) = Some doc) (entradas_de m))
     (adicionar_lotes servico_exemplo ''docs''
        [(''t1'', \<lparr>shape = [2, 2], dados = [1, 0, 0, 1]\<rparr>, Some [(0, doc_a), (1, doc_b)]),
         (''t2'', \<lparr>shape = [1, 2], dados = [1, 1]\<rparr>, Some [(0, doc_b)])])"
proof -
  let ?lotes = "[(''t1'', \<lparr>shape = [2, 2], dados = [1, 0, 0, 1]\<rparr>, Some [(0, doc_a), (1, doc_b)]),
         (''t2'', \<lparr>shape = [1, 2], dados = [1, 1::real]\<rparr>, Some [(0, doc_b)])]"
  have h1: "indices servico_exemplo ''docs'' = Some (indice_plano 2)"
    by (simp add: servico_exemplo_eq)
  have h2: "ix_is_trained (indice_plano 2)"
    by (simp add: indice_plano_def)
  have h3: "metadados servico_exemplo ''docs'' \<noteq> None"
    by (simp add: servico_exemplo_eq)
  have h4: "mapeamentos servico_exemplo ''docs'' \<noteq> None"
    by (simp add: servico_exemplo_eq)
  have h5: "list_all (\<lambda>(agora, v, m). length (shape v) = 2
      \<and> int (shape v ! 1) = ix_d (indice_plano 2) \<and> distinct (map fst (entradas_de m))) ?lotes"
    by (simp add: indice_plano_def entradas_de_def)
  note t = adicionar_lotes_offsets [OF h1 h2 h3 h4 h5]
  have c: "map (\<lambda>(antes, l, ok, depois). (ok, contagem antes ''docs'', contagem depois ''docs''))
     (adicionar_lotes servico_exemplo ''docs'' ?lotes) = [(True, 0, 2), (True, 2, 3)]"
    using t
    by (simp add: servico_exemplo_eq adicionar_vetores_def faiss_add_def indice_plano_def
        contagem_def ntotal_def linhas_def entradas_de_def Let_def)
  show ?thesis
    using h1 h2 h3 h4 c t by (simp add: list_all_iff case_prod_unfold)
qed

text \<open>
  C1 as stated, for every index of the store, fails: \<^verbatim>\<open>criar_indice\<close> with the kind
  \<^verbatim>\<open>ivf\<close> succeeds and stores an untrained inverted-file index, and a batch of the right
  dimension is then refused by the library; the call returns \<^verbatim>\<open>False\<close> and the count
  stays 0.
\<close>

theorem adicionar_vetores_todo_indice_counterexample:
  "fst (criar_indice FaissService_init ''20240101120000'' ''aprox'' 2 ''ivf'' None) \<and>
   indices (snd (criar_indice FaissService_init ''20240101120000'' ''aprox'' 2 ''ivf'' None)) ''aprox''
     = Some \<lparr>ix_classe = IndexIVFFlat 100 10, ix_d = 2, ix_is_trained = False, ix_xb = []\<rparr> \<and>
   \<not> fst (adicionar_vetores (snd (criar_indice FaissService_init ''20240101120000'' ''aprox'' 2 ''ivf'' None))
           ''20240101120001'' ''aprox'' \<lparr>shape = [1, 2], dados = [1, 0]\<rparr> None) \<and>
   contagem (snd (adicionar_vetores (snd (criar_indice FaissService_init ''20240101120000'' ''aprox'' 2 ''ivf'' None))
           ''20240101120001'' ''aprox'' \<lparr>shape = [1, 2], dados = [1, 0]\<rparr> None)) ''aprox'' = 0"
  by (simp add: criar_indice_def FaissService_init_def metadados_base_def IndiceMetadata_init_def
      adicionar_vetores_def faiss_add_def faiss_IndexFlatL2_def faiss_IndexIVFFlat_def int32_def
      contagem_def ntotal_def Let_def)

section \<open>Rejected batches\<close>

text \<open>
  C5. A batch whose second dimension differs from the dimension of the index is
  rejected: \<^verbatim>\<open>adicionar_vetores\<close> returns \<^verbatim>\<open>False\<close> and the whole service state,
  hence the vector count, the slot mapping and the stored vectors of every index, is
  the state before the call. The same holds for an array that is not two-dimensional.
\<close>

theorem adicionar_vetores_dimensao_errada:
  assumes "indices s indice_id = Some ix"
    and "length (shape vetores) \<noteq> 2 \<or> int (shape vetores ! 1) \<noteq> ix_d ix"
  shows "adicionar_vetores s agora indice_id vetores mapeamento = (False, s)"
  using assms by (auto simp: adicionar_vetores_def)

theorem adicionar_vetores_dimensao_errada_witness:
  "indices servico_exemplo ''docs'' = Some (indice_plano 2) \<and>
   int (shape \<lparr>shape = [1, 3], dados = [1, 0, 0]\<rparr> ! 1) \<noteq> ix_d (indice_plano 2) \<and>
   adicionar_vetores servico_exemplo ''t1'' ''docs'' \<lparr>shape = [1, 3], dados = [1, 0, 0]\<rparr>
     (Some [(0, doc_a)]) = (False, servico_exemplo)"
proof -
  have h1: "indices servico_exemplo ''docs'' = Some (indice_plano 2)"
    by (simp add: servico_exemplo_eq)
  have h2: "length (shape \<lparr>shape = [1, 3], dados = [1, 0, 0::real]\<rparr>) \<noteq> 2
      \<or> int (shape \<lparr>shape = [1, 3], dados = [1, 0, 0::real]\<rparr> ! 1) \<noteq> ix_d (indice_plano 2)"
    by (simp add: indice_plano_def)
  show ?thesis
    using h1 adicionar_vetores_dimensao_errada [OF h1 h2] by (simp add: indice_plano_def)
qed

section \<open>Creating an index\<close>






section \<open>The embedding cache\<close>

text \<open>The three ways through \<^verbatim>\<open>gerar_embedding\<close>: a cached text, a failed request, an
  answered request.\<close>

lemma update_novo: "k \<notin> fst ` set al \<Longrightarrow> AList.update k v al = al @ [(k, v)]"
  by (induct al) auto

lemma gerar_embedding_cached:
  "map_of (cache_embeddings s) (chave_cache md5 s texto) = Some e \<Longrightarrow>
   gerar_embedding md5 cliente s texto = (e, s)"
  by (simp add: gerar_embedding_def)

lemma gerar_embedding_falha:
  assumes "map_of (cache_embeddings s) (chave_cache md5 s texto) = None"
    and "cliente (chamadas s) (modelo_embeddings s) [texto] = None
         \<or> cliente (chamadas s) (modelo_embeddings s) [texto] = Some []"
  shows "gerar_embedding md5 cliente s texto = (zeros s, s\<lparr>chamadas := chamadas s + 1\<rparr>)"
  using assms by (auto simp: gerar_embedding_def zeros_def)

lemma gerar_embedding_sucesso:
  assumes "map_of (cache_embeddings s) (chave_cache md5 s texto) = None"
    and "cliente (chamadas s) (modelo_embeddings s) [texto] = Some (e # es)"
  shows "gerar_embedding md5 cliente s texto =
     (e, s\<lparr>chamadas := chamadas s + 1,
           cache_embeddings := cache_embeddings s @ [(chave_cache md5 s texto, e)],
           num_salvamentos := num_salvamentos s
              + (if Suc (length (cache_embeddings s)) mod 10 = 0 then 1 else 0)\<rparr>)"
proof -
  have fora: "chave_cache md5 s texto \<notin> fst ` set (cache_embeddings s)"
    using assms(1) by (simp add: map_of_eq_None_iff)
  have up: "AList.update (chave_cache md5 s texto) e (cache_embeddings s)
      = cache_embeddings s @ [(chave_cache md5 s texto, e)]"
    using fora by (rule update_novo)
  show ?thesis
    using assms by (simp add: gerar_embedding_def Let_def up salvar_cache_def)
qed

lemma gerar_embedding_miss_chama:
  assumes "map_of (cache_embeddings s) (chave_cache md5 s texto) = None"
  shows "chamadas (snd (gerar_embedding md5 cliente s texto)) = chamadas s + 1"
proof (cases "cliente (chamadas s) (modelo_embeddings s) [texto]")
  case None
  then show ?thesis using assms by (simp add: gerar_embedding_falha)
next
  case (Some r)
  show ?thesis
  proof (cases r)
    case Nil
    then show ?thesis using assms Some by (simp add: gerar_embedding_falha)
  next
    case (Cons e es)
    then show ?thesis using assms Some by (simp add: gerar_embedding_sucesso)
  qed
qed

text \<open>
  C4, as the code has it. When the text is in the cache, or the provider answers the
  first request, two calls of \<^verbatim>\<open>gerar_embedding\<close> with one text send at most one
  request in total and return the same vector.
\<close>

theorem gerar_embedding_duas_vezes:
  assumes "map_of (cache_embeddings s) (chave_cache md5 s texto) \<noteq> None
           \<or> (\<exists>e es. cliente (chamadas s) (modelo_embeddings s) [texto] = Some (e # es))"
  shows "fst (gerar_embedding md5 cliente (snd (gerar_embedding md5 cliente s texto)) texto)
           = fst (gerar_embedding md5 cliente s texto) \<and>
         chamadas (snd (gerar_embedding md5 cliente (snd (gerar_embedding md5 cliente s texto)) texto))
           \<le> chamadas s + 1"
proof (cases "map_of (cache_embeddings s) (chave_cache md5 s texto)")
  case (Some e)
  then show ?thesis by (simp add: gerar_embedding_cached)
next
  case None
  then obtain e es where r: "cliente (chamadas s) (modelo_embeddings s) [texto] = Some (e # es)"
    using assms by auto
  let ?s1 = "snd (gerar_embedding md5 cliente s texto)"
  note suc = gerar_embedding_sucesso [where cliente = cliente, OF None r]
  have um: "gerar_embedding md5 cliente s texto = (e, ?s1)"
    by (simp add: suc)
  have ch: "chave_cache md5 ?s1 texto = chave_cache md5 s texto"
    by (simp add: suc chave_cache_def)
  have guardado: "map_of (cache_embeddings ?s1) (chave_cache md5 ?s1 texto) = Some e"
    unfolding ch using None by (simp add: suc map_add_def)
  have c1: "chamadas ?s1 = chamadas s + 1"
    by (simp add: suc)
  show ?thesis
    using um c1 by (simp add: gerar_embedding_cached [OF guardado])
qed

theorem gerar_embedding_duas_vezes_witness:
  "(\<exists>e es. cliente_exemplo (chamadas es_exemplo) (modelo_embeddings es_exemplo) [''luz''] = Some (e # es)) \<and>
   fst (gerar_embedding md5_exemplo cliente_exemplo es_exemplo ''luz'') = [1, 3] \<and>
   fst (gerar_embedding md5_exemplo cliente_exemplo
          (snd (gerar_embedding md5_exemplo cliente_exemplo es_exemplo ''luz'')) ''luz'') = [1, 3] \<and>
   chamadas (snd (gerar_embedding md5_exemplo cliente_exemplo
          (snd (gerar_embedding md5_exemplo cliente_exemplo es_exemplo ''luz'')) ''luz''))
     \<le> chamadas es_exemplo + 1"
proof -
  have h: "map_of (cache_embeddings es_exemplo) (chave_cache md5_exemplo es_exemplo ''luz'') \<noteq> None
      \<or> (\<exists>e es. cliente_exemplo (chamadas es_exemplo) (modelo_embeddings es_exemplo) [''luz''] = Some (e # es))"
    by (simp add: cliente_exemplo_def)
  have um: "gerar_embedding md5_exemplo cliente_exemplo es_exemplo ''luz'' =
      ([1, 3], es_exemplo\<lparr>chamadas := 1, cache_embeddings := [(''hluz_modelo'', [1, 3])]\<rparr>)"
    by (simp add: gerar_embedding_def es_exemplo_def EmbeddingsService_init_def chave_cache_def
        md5_exemplo_def cliente_exemplo_def Let_def)
  show ?thesis
    using gerar_embedding_duas_vezes [of es_exemplo md5_exemplo "''luz''" cliente_exemplo, OF h] um
    by (simp add: cliente_exemplo_def es_exemplo_def EmbeddingsService_init_def)
qed

text \<open>
  C4 as stated, for every text, fails when the first request fails: the first call
  returns the vector of zeros and caches nothing, the second call sends a second
  request and returns what the provider then answers.
\<close>

theorem gerar_embedding_duas_vezes_counterexample:
  "fst (gerar_embedding md5_exemplo cliente_instavel es_exemplo ''luz'') = [0, 0] \<and>
   fst (gerar_embedding md5_exemplo cliente_instavel
          (snd (gerar_embedding md5_exemplo cliente_instavel es_exemplo ''luz'')) ''luz'') = [1, 3] \<and>
   chamadas es_exemplo = 0 \<and>
   chamadas (snd (gerar_embedding md5_exemplo cliente_instavel
          (snd (gerar_embedding md5_exemplo cliente_instavel es_exemplo ''luz'')) ''luz'')) = 2"
proof -
  have um: "gerar_embedding md5_exemplo cliente_instavel es_exemplo ''luz'' =
      ([0, 0], es_exemplo\<lparr>chamadas := Suc 0\<rparr>)"
    by (simp add: gerar_embedding_def es_exemplo_def EmbeddingsService_init_def chave_cache_def
        md5_exemplo_def cliente_instavel_def Let_def zeros_def numeral_2_eq_2)
  have dois: "gerar_embedding md5_exemplo cliente_instavel (es_exemplo\<lparr>chamadas := Suc 0\<rparr>) ''luz'' =
      ([1, 3], es_exemplo\<lparr>chamadas := 2, cache_embeddings := [(''hluz_modelo'', [1, 3])]\<rparr>)"
    by (simp add: gerar_embedding_def es_exemplo_def EmbeddingsService_init_def chave_cache_def
        md5_exemplo_def cliente_instavel_def Let_def)
  have zero: "chamadas es_exemplo = 0"
    by (simp add: es_exemplo_def EmbeddingsService_init_def)
  show ?thesis
    unfolding um snd_conv fst_conv dois using zero by simp
qed

text \<open>The loop over the answer of a batch request, the handler of a failed batch, and
  the batch whose request fails.\<close>

lemma processar_resposta_ok:
  "fst (processar_resposta md5 r pend (s, es)) = (length r \<le> length pend)"
  by (induction md5 r pend "(s, es)" arbitrary: s es rule: processar_resposta.induct) simp_all

lemma processar_resposta_contadores:
  "num_salvamentos (fst (snd (processar_resposta md5 r pend (s, es)))) = num_salvamentos s"
  by (induction md5 r pend "(s, es)" arbitrary: s es rule: processar_resposta.induct) simp_all

lemma preencher_zeros_nth:
  assumes "\<forall>i\<in>set ps. i < length es"
  shows "preencher_zeros s ps es =
     map (\<lambda>j. if j \<in> set ps \<and> es ! j = None then Some (zeros s) else es ! j) [0..<length es]"
  using assms unfolding preencher_zeros_def
proof (induction ps arbitrary: es)
  case Nil
  show ?case by (simp add: map_nth)
next
  case (Cons p ps)
  let ?es' = "if es ! p = None then es[p := Some (zeros s)] else es"
  have len: "length ?es' = length es" by simp
  have "\<forall>i\<in>set ps. i < length ?es'" using Cons.prems by simp
  from Cons.IH [OF this]
  have "fold (\<lambda>idx acc. if acc ! idx = None then acc[idx := Some (zeros s)] else acc) ps ?es' =
    map (\<lambda>j. if j \<in> set ps \<and> ?es' ! j = None then Some (zeros s) else ?es' ! j) [0..<length es]"
    unfolding len .
  also have "\<dots> = map (\<lambda>j. if j \<in> set (p # ps) \<and> es ! j = None then Some (zeros s) else es ! j)
      [0..<length es]"
    using Cons.prems by (auto simp: nth_list_update)
  finally show ?case by simp
qed

lemma set_para_processar:
  "set (map fst (para_processar md5 s textos)) =
     {j. j < length textos \<and> map_of (cache_embeddings s) (chave_cache md5 s (textos ! j)) = None}"
  by (auto simp: para_processar_def set_zip image_iff) force

lemma lote_falha:
  assumes "para_processar md5 s textos \<noteq> []"
    and "cliente (chamadas s) (modelo_embeddings s) (map snd (para_processar md5 s textos)) = None"
  shows "gerar_embeddings_batch md5 cliente s textos =
     (map (\<lambda>texto. case map_of (cache_embeddings s) (chave_cache md5 s texto) of
                     Some e \<Rightarrow> Some e | None \<Rightarrow> Some (zeros s)) textos,
      s\<lparr>chamadas := chamadas s + 1\<rparr>)"
proof -
  let ?es = "consultar_cache md5 s textos"
  let ?ps = "map fst (para_processar md5 s textos)"
  have len: "length ?es = length textos" by (simp add: consultar_cache_def)
  have dentro: "\<forall>i\<in>set ?ps. i < length ?es"
    unfolding set_para_processar len by simp
  have z: "zeros (s\<lparr>chamadas := chamadas s + 1\<rparr>) = zeros s" by (simp add: zeros_def)
  have "preencher_zeros (s\<lparr>chamadas := chamadas s + 1\<rparr>) ?ps ?es =
     map (\<lambda>texto. case map_of (cache_embeddings s) (chave_cache md5 s texto) of
                     Some e \<Rightarrow> Some e | None \<Rightarrow> Some (zeros s)) textos"
    unfolding preencher_zeros_nth [OF dentro] set_para_processar z len
    by (rule nth_equalityI) (auto simp: consultar_cache_def split: option.splits)
  then show ?thesis
    using assms by (simp add: gerar_embeddings_batch_def Let_def)
qed

lemma para_processar_cong:
  "cache_embeddings s' = cache_embeddings s \<Longrightarrow> modelo_embeddings s' = modelo_embeddings s \<Longrightarrow>
   para_processar md5 s' textos = para_processar md5 s textos"
  by (simp add: para_processar_def chave_cache_def)

lemma processar_resposta_chamadas:
  "chamadas (fst (snd (processar_resposta md5 r pend (s, es)))) = chamadas s"
  by (induction md5 r pend "(s, es)" arbitrary: s es rule: processar_resposta.induct) simp_all

lemma lote_chama:
  assumes "para_processar md5 s textos \<noteq> []"
  shows "chamadas (snd (gerar_embeddings_batch md5 cliente s textos)) = chamadas s + 1"
proof (cases "cliente (chamadas s) (modelo_embeddings s) (map snd (para_processar md5 s textos))")
  case None
  then show ?thesis using assms by (simp add: gerar_embeddings_batch_def Let_def)
next
  case (Some r)
  let ?s1 = "s\<lparr>chamadas := chamadas s + 1\<rparr>"
  obtain ok s2 es2 where
    p: "processar_resposta md5 r (para_processar md5 s textos) (?s1, consultar_cache md5 s textos)
          = (ok, s2, es2)"
    by (metis prod_cases3)
  have "chamadas s2 = chamadas ?s1"
    using processar_resposta_chamadas
      [of md5 r "para_processar md5 s textos" ?s1 "consultar_cache md5 s textos"]
    unfolding p by simp
  then show ?thesis
    using assms Some p by (cases ok) (simp_all add: gerar_embeddings_batch_def Let_def salvar_cache_def)
qed

text \<open>
  C9. When the request of \<^verbatim>\<open>gerar_embedding\<close> for a text that is not cached fails, the
  call returns the vector of zeros, the cache is the cache before the call, and the
  next call with the same text sends a request again. When the request of
  \<^verbatim>\<open>gerar_embeddings_batch\<close> fails, every text that was not cached gets the vector of
  zeros, the cache is the cache before the call, and the next call, single for any of
  these texts or batched for all, sends a request again.
\<close>

theorem falha_do_provedor_preserva_cache:
  "(map_of (cache_embeddings s) (chave_cache md5 s texto) = None \<and>
    cliente (chamadas s) (modelo_embeddings s) [texto] = None \<longrightarrow>
      fst (gerar_embedding md5 cliente s texto) = zeros s \<and>
      cache_embeddings (snd (gerar_embedding md5 cliente s texto)) = cache_embeddings s \<and>
      chamadas (snd (gerar_embedding md5 cliente (snd (gerar_embedding md5 cliente s texto)) texto))
        = chamadas s + 2) \<and>
   (para_processar md5 s textos \<noteq> [] \<and>
    cliente (chamadas s) (modelo_embeddings s) (map snd (para_processar md5 s textos)) = None \<longrightarrow>
      fst (gerar_embeddings_batch md5 cliente s textos) =
        map (\<lambda>texto. case map_of (cache_embeddings s) (chave_cache md5 s texto) of
                        Some e \<Rightarrow> Some e | None \<Rightarrow> Some (zeros s)) textos \<and>
      cache_embeddings (snd (gerar_embeddings_batch md5 cliente s textos)) = cache_embeddings s \<and>
      list_all (\<lambda>(i, texto).
          chamadas (snd (gerar_embedding md5 cliente (snd (gerar_embeddings_batch md5 cliente s textos)) texto))
            = chamadas s + 2) (para_processar md5 s textos) \<and>
      chamadas (snd (gerar_embeddings_batch md5 cliente
          (snd (gerar_embeddings_batch md5 cliente s textos)) textos)) = chamadas s + 2)"
proof (intro conjI impI)
  assume a: "map_of (cache_embeddings s) (chave_cache md5 s texto) = None \<and>
    cliente (chamadas s) (modelo_embeddings s) [texto] = None"
  let ?s1 = "s\<lparr>chamadas := chamadas s + 1\<rparr>"
  have um: "gerar_embedding md5 cliente s texto = (zeros s, ?s1)"
    using a by (simp add: gerar_embedding_falha)
  show "fst (gerar_embedding md5 cliente s texto) = zeros s" by (simp add: um)
  show "cache_embeddings (snd (gerar_embedding md5 cliente s texto)) = cache_embeddings s"
    by (simp add: um)
  have "map_of (cache_embeddings ?s1) (chave_cache md5 ?s1 texto) = None"
    using a by (simp add: chave_cache_def)
  from gerar_embedding_miss_chama [OF this]
  show "chamadas (snd (gerar_embedding md5 cliente (snd (gerar_embedding md5 cliente s texto)) texto))
        = chamadas s + 2"
    by (simp add: um)
next
  assume a: "para_processar md5 s textos \<noteq> [] \<and>
    cliente (chamadas s) (modelo_embeddings s) (map snd (para_processar md5 s textos)) = None"
  let ?s1 = "s\<lparr>chamadas := chamadas s + 1\<rparr>"
  note lote = lote_falha [of md5 s textos cliente]
  have um: "snd (gerar_embeddings_batch md5 cliente s textos) = ?s1"
    using a by (simp add: lote)
  show "fst (gerar_embeddings_batch md5 cliente s textos) =
        map (\<lambda>texto. case map_of (cache_embeddings s) (chave_cache md5 s texto) of
                        Some e \<Rightarrow> Some e | None \<Rightarrow> Some (zeros s)) textos"
    using a by (simp add: lote)
  show "cache_embeddings (snd (gerar_embeddings_batch md5 cliente s textos)) = cache_embeddings s"
    by (simp add: um)
  show "list_all (\<lambda>(i, texto).
          chamadas (snd (gerar_embedding md5 cliente (snd (gerar_embeddings_batch md5 cliente s textos)) texto))
            = chamadas s + 2) (para_processar md5 s textos)"
    unfolding um list_all_iff
  proof (clarify)
    fix i texto
    assume "(i, texto) \<in> set (para_processar md5 s textos)"
    then have "map_of (cache_embeddings s) (chave_cache md5 s texto) = None"
      by (simp add: para_processar_def)
    then have "map_of (cache_embeddings ?s1) (chave_cache md5 ?s1 texto) = None"
      by (simp add: chave_cache_def)
    from gerar_embedding_miss_chama [OF this]
    show "chamadas (snd (gerar_embedding md5 cliente ?s1 texto)) = chamadas s + 2"
      by simp
  qed
  have "para_processar md5 ?s1 textos = para_processar md5 s textos"
    by (rule para_processar_cong) simp_all
  then have "para_processar md5 ?s1 textos \<noteq> []"
    using a by simp
  from lote_chama [OF this]
  show "chamadas (snd (gerar_embeddings_batch md5 cliente
          (snd (gerar_embeddings_batch md5 cliente s textos)) textos)) = chamadas s + 2"
    by (simp add: um)
qed

theorem falha_do_provedor_preserva_cache_witness:
  "map_of (cache_embeddings es_exemplo) (chave_cache md5_exemplo es_exemplo ''luz'') = None \<and>
   cliente_fora (chamadas es_exemplo) (modelo_embeddings es_exemplo) [''luz''] = None \<and>
   fst (gerar_embedding md5_exemplo cliente_fora es_exemplo ''luz'') = [0, 0] \<and>
   cache_embeddings (snd (gerar_embedding md5_exemplo cliente_fora es_exemplo ''luz'')) = [] \<and>
   chamadas (snd (gerar_embedding md5_exemplo cliente_fora
       (snd (gerar_embedding md5_exemplo cliente_fora es_exemplo ''luz'')) ''luz'')) = 2 \<and>
   para_processar md5_exemplo es_exemplo [''luz'', ''gas''] \<noteq> [] \<and>
   fst (gerar_embeddings_batch md5_exemplo cliente_fora es_exemplo [''luz'', ''gas''])
     = [Some [0, 0], Some [0, 0]] \<and>
   cache_embeddings (snd (gerar_embeddings_batch md5_exemplo cliente_fora es_exemplo [''luz'', ''gas''])) = [] \<and>
   chamadas (snd (gerar_embeddings_batch md5_exemplo cliente_fora
       (snd (gerar_embeddings_batch md5_exemplo cliente_fora es_exemplo [''luz'', ''gas'']))
       [''luz'', ''gas''])) = 2"
proof -
  have h1: "map_of (cache_embeddings es_exemplo) (chave_cache md5_exemplo es_exemplo ''luz'') = None"
    by (simp add: es_exemplo_def EmbeddingsService_init_def)
  have h2: "cliente_fora (chamadas es_exemplo) (modelo_embeddings es_exemplo) [''luz''] = None"
    by (simp add: cliente_fora_def)
  have h3: "para_processar md5_exemplo es_exemplo [''luz'', ''gas''] \<noteq> []"
    by (simp add: para_processar_def es_exemplo_def EmbeddingsService_init_def)
  have h4: "cliente_fora (chamadas es_exemplo) (modelo_embeddings es_exemplo)
      (map snd (para_processar md5_exemplo es_exemplo [''luz'', ''gas''])) = None"
    by (simp add: cliente_fora_def)
  have z: "zeros es_exemplo = [0, 0]"
    by (simp add: zeros_def es_exemplo_def EmbeddingsService_init_def numeral_2_eq_2)
  have c: "cache_embeddings es_exemplo = []" "chamadas es_exemplo = 0"
    by (simp_all add: es_exemplo_def EmbeddingsService_init_def)
  note t = falha_do_provedor_preserva_cache
    [of es_exemplo md5_exemplo "''luz''" cliente_fora "[''luz'', ''gas'']"]
  show ?thesis
    using t h1 h2 h3 h4 by (simp add: z c)
qed

text \<open>The runs of \<^verbatim>\<open>salvar_cache\<close> in one call of either operation.\<close>

lemma gerar_embedding_salvamentos:
  "num_salvamentos (snd (gerar_embedding md5 cliente s texto)) =
     num_salvamentos s +
       (if length (cache_embeddings (snd (gerar_embedding md5 cliente s texto)))
             = Suc (length (cache_embeddings s))
           \<and> length (cache_embeddings (snd (gerar_embedding md5 cliente s texto))) mod 10 = 0
        then 1 else 0)"
proof (cases "map_of (cache_embeddings s) (chave_cache md5 s texto)")
  case (Some e)
  then show ?thesis by (simp add: gerar_embedding_cached)
next
  case None
  show ?thesis
  proof (cases "cliente (chamadas s) (modelo_embeddings s) [texto]")
    case None2: None
    then show ?thesis using None by (simp add: gerar_embedding_falha)
  next
    case (Some r)
    show ?thesis
    proof (cases r)
      case Nil
      then show ?thesis using None Some by (simp add: gerar_embedding_falha)
    next
      case (Cons e es)
      then show ?thesis
        using gerar_embedding_sucesso [of s md5 texto cliente e es] None Some by simp
    qed
  qed
qed

lemma lote_salvamentos:
  "num_salvamentos (snd (gerar_embeddings_batch md5 cliente s textos)) =
     num_salvamentos s +
       (if para_processar md5 s textos \<noteq> [] \<and>
           (\<exists>r. cliente (chamadas s) (modelo_embeddings s) (map snd (para_processar md5 s textos)) = Some r
                \<and> length r \<le> length (para_processar md5 s textos))
        then 1 else 0)"
proof (cases "para_processar md5 s textos = []")
  case True
  then show ?thesis by (simp add: gerar_embeddings_batch_def Let_def)
next
  case False
  show ?thesis
  proof (cases "cliente (chamadas s) (modelo_embeddings s) (map snd (para_processar md5 s textos))")
    case None
    then show ?thesis using False by (simp add: gerar_embeddings_batch_def Let_def)
  next
    case (Some r)
    let ?s1 = "s\<lparr>chamadas := chamadas s + 1\<rparr>"
    obtain ok s2 es2 where
      p: "processar_resposta md5 r (para_processar md5 s textos) (?s1, consultar_cache md5 s textos)
            = (ok, s2, es2)"
      by (metis prod_cases3)
    have ok: "ok = (length r \<le> length (para_processar md5 s textos))"
      using processar_resposta_ok
        [of md5 r "para_processar md5 s textos" ?s1 "consultar_cache md5 s textos"]
      unfolding p by simp
    have n: "num_salvamentos s2 = num_salvamentos s"
      using processar_resposta_contadores
        [of md5 r "para_processar md5 s textos" ?s1 "consultar_cache md5 s textos"]
      unfolding p by simp
    show ?thesis
      using False Some p ok n
      by (cases ok) (simp_all add: gerar_embeddings_batch_def Let_def salvar_cache_def)
  qed
qed

text \<open>
  C8, as the code has it. \<^verbatim>\<open>gerar_embedding\<close> saves the cache exactly when the call
  stored a new entry and the cache then holds a multiple of 10 entries.
  \<^verbatim>\<open>gerar_embeddings_batch\<close> saves it exactly once after every batch that had a text to
  process and whose answer was processed to its end, whatever the number of entries.
\<close>

theorem cadencia_de_salvamento:
  "num_salvamentos (snd (gerar_embedding md5 cliente s texto)) =
     num_salvamentos s +
       (if length (cache_embeddings (snd (gerar_embedding md5 cliente s texto)))
             = Suc (length (cache_embeddings s))
           \<and> length (cache_embeddings (snd (gerar_embedding md5 cliente s texto))) mod 10 = 0
        then 1 else 0) \<and>
   num_salvamentos (snd (gerar_embeddings_batch md5 cliente s textos)) =
     num_salvamentos s +
       (if para_processar md5 s textos \<noteq> [] \<and>
           (\<exists>r. cliente (chamadas s) (modelo_embeddings s) (map snd (para_processar md5 s textos)) = Some r
                \<and> length r \<le> length (para_processar md5 s textos))
        then 1 else 0)"
  using gerar_embedding_salvamentos lote_salvamentos by blast

theorem cadencia_de_salvamento_witness:
  "length (cache_embeddings es_nove) = 9 \<and>
   num_salvamentos (snd (gerar_embedding md5_exemplo cliente_exemplo es_nove ''luz'')) = 1 \<and>
   num_salvamentos (snd (gerar_embedding md5_exemplo cliente_exemplo es_exemplo ''luz'')) = 0 \<and>
   num_salvamentos (snd (gerar_embeddings_batch md5_exemplo cliente_exemplo es_nove [''luz''])) = 1 \<and>
   num_salvamentos (snd (gerar_embeddings_batch md5_exemplo cliente_fora es_nove [''luz''])) = 0"
proof -
  have nove: "gerar_embedding md5_exemplo cliente_exemplo es_nove ''luz'' =
      ([1, 3], es_nove\<lparr>chamadas := 1,
         cache_embeddings := cache_embeddings es_nove @ [(''hluz_modelo'', [1, 3])],
         num_salvamentos := 1\<rparr>)"
    by (simp add: gerar_embedding_def es_nove_def EmbeddingsService_init_def chave_cache_def
        md5_exemplo_def cliente_exemplo_def Let_def salvar_cache_def)
  have um: "gerar_embedding md5_exemplo cliente_exemplo es_exemplo ''luz'' =
      ([1, 3], es_exemplo\<lparr>chamadas := 1, cache_embeddings := [(''hluz_modelo'', [1, 3])]\<rparr>)"
    by (simp add: gerar_embedding_def es_exemplo_def EmbeddingsService_init_def chave_cache_def
        md5_exemplo_def cliente_exemplo_def Let_def)
  have pend: "para_processar md5_exemplo es_nove [''luz''] = [(0, ''luz'')]"
    by (simp add: para_processar_def es_nove_def EmbeddingsService_init_def chave_cache_def
        md5_exemplo_def)
  have e0: "num_salvamentos es_nove = 0" "num_salvamentos es_exemplo = 0"
    "cache_embeddings es_exemplo = []" "length (cache_embeddings es_nove) = 9"
    by (simp_all add: es_nove_def es_exemplo_def EmbeddingsService_init_def)
  note a = cadencia_de_salvamento [of md5_exemplo cliente_exemplo es_nove "''luz''" "[''luz'']"]
  note b = cadencia_de_salvamento [of md5_exemplo cliente_exemplo es_exemplo "''luz''" "[]"]
  note c = cadencia_de_salvamento [of md5_exemplo cliente_fora es_nove "''luz''" "[''luz'']"]
  show ?thesis
    using a b c by (simp add: nove um pend e0 cliente_exemplo_def cliente_fora_def)
qed

text \<open>
  C8 as stated, a save after every tenth new entry and not after each write, fails for
  the batch operation: a batch that adds the first entry to an empty cache saves it.
\<close>

theorem cadencia_de_salvamento_counterexample:
  "cache_embeddings es_exemplo = [] \<and> num_salvamentos es_exemplo = 0 \<and>
   length (cache_embeddings (snd (gerar_embeddings_batch md5_exemplo cliente_exemplo es_exemplo [''luz'']))) = 1 \<and>
   num_salvamentos (snd (gerar_embeddings_batch md5_exemplo cliente_exemplo es_exemplo [''luz''])) = 1"
  by (simp add: gerar_embeddings_batch_def consultar_cache_def para_processar_def es_exemplo_def
      EmbeddingsService_init_def chave_cache_def md5_exemplo_def cliente_exemplo_def Let_def
      salvar_cache_def)

section \<open>Filtered search\<close>

text \<open>The results with a filter are the results without it from which the documents
  that fail the filter loop are removed: the order of the ranking is kept.\<close>

lemma montar_resultados_filtro:
  "montar_resultados m (Some filtro) xs =
     filter (\<lambda>(doc, score). atende_filtro doc filtro) (montar_resultados m None xs)"
  by (induction xs) (auto split: option.splits)

lemma buscar_filtro:
  "fst (EmbeddingsService_buscar bib md5 cliente s texto k (Some filtro)) =
     filter (\<lambda>(doc, score). atende_filtro doc filtro)
       (fst (EmbeddingsService_buscar bib md5 cliente s texto k None))"
  by (simp add: EmbeddingsService_buscar_def Let_def montar_resultados_filtro
      split: option.splits prod.splits list.splits)

text \<open>For a dictionary and a filter none of whose keys names an attribute of the class
  \<^verbatim>\<open>dict\<close>, the filter loop holds exactly when every pair of the filter is an entry of
  the dictionary with an equal value.\<close>

lemma atende_filtro_dict:
  "list_all (\<lambda>(chave, v). chave \<notin> set dict_attrs) filtro \<Longrightarrow>
   atende_filtro (DocDict entradas) filtro =
     list_all (\<lambda>(chave, v). \<exists>x. map_of entradas chave = Some x \<and> \<not> py_ne x v) filtro"
proof (induction filtro)
  case Nil
  show ?case by simp
next
  case (Cons par filtro)
  obtain chave v where par: "par = (chave, v)" by (cases par)
  have fora: "chave \<notin> set dict_attrs" and resto: "list_all (\<lambda>(chave, v). chave \<notin> set dict_attrs) filtro"
    using Cons.prems by (simp_all add: par)
  have h: "\<not> hasattr (DocDict entradas) chave"
    using fora by (simp add: hasattr_def)
  show ?case
    unfolding par using Cons.IH [OF resto] h
    by (cases "map_of entradas chave") simp_all
qed

text \<open>The example search without a filter: the two documents by distance.\<close>

lemma busca_exemplo:
  "fst (EmbeddingsService_buscar bib_exemplo md5_exemplo cliente_exemplo es_busca ''luz'' 5 None)
     = [(doc_a, 1), (doc_b, - 4)]"
  by (simp add: EmbeddingsService_buscar_def es_busca_def EmbeddingsService_init_def
      gerar_embedding_def chave_cache_def md5_exemplo_def cliente_exemplo_def Let_def
      matriz_de_vetor_def faiss_search_def bib_exemplo_def linhas_def busca_linha_def
      candidatos_def medir_def List.map_filter_def FLT_MAX_def l2sqr_def doc_a_def doc_b_def
      power2_eq_square numeral_2_eq_2 numeral_3_eq_3)

text \<open>
  C7 fails on the code. The filter loop looks a key up as an attribute of the document
  before it looks it up as an entry, and every dictionary has the attributes of its
  class. With the filter \<^verbatim>\<open>{"__hash__": None}\<close> the search returns both documents of the
  example, dictionaries that have no entry \<^verbatim>\<open>__hash__\<close>: the attribute \<^verbatim>\<open>__hash__\<close> of a
  dictionary is \<^verbatim>\<open>None\<close>. The claim excludes a document lacking a filter key, as the
  comment of the loop does.
\<close>

theorem busca_filtrada_atributo_de_classe:
  "fst (EmbeddingsService_buscar bib_exemplo md5_exemplo cliente_exemplo es_busca ''luz'' 5
          (Some [(''__hash__'', VNone)]))
     = [(doc_a, 1), (doc_b, - 4)] \<and>
   contem doc_a ''__hash__'' = False \<and> contem doc_b ''__hash__'' = False \<and>
   fst (EmbeddingsService_buscar bib_exemplo md5_exemplo cliente_exemplo es_busca ''luz'' 5
          (Some [(''tipo'', VStr ''fatura'')]))
     = [(doc_a, 1)]"
  unfolding buscar_filtro busca_exemplo
  by (simp add: doc_a_def doc_b_def hasattr_def dict_attrs_def)

section \<open>Loading a snapshot\<close>

text \<open>The example directory: the names, and what the three files read as.\<close>

lemma split_ex: "split_em (CHR ''_'') ''docs_20240101120000.index'' = [''docs'', ''20240101120000.index'']"
  by simp

lemma ts_ex: "extrair_timestamp ''docs_20240101120000.index'' = Some ''20240101120000''"
  by (simp add: extrair_timestamp_def)

lemma sem_ex: "sem_index ''docs_20240101120000.index'' = ''docs_20240101120000''"
  by (simp add: startswith_def)

lemma localizar_ex:
  "localizar_indice diretorio_exemplo ''docs'' None =
     Some (''docs_20240101120000.index'', Some ''docs_20240101120000_mapping.json'',
           Some ''docs_20240101120000_metadata.json'')"
  "localizar_indice_faiss diretorio_exemplo None =
     Some (''docs_20240101120000.index'', Some ''docs_20240101120000_mapping.json'',
           Some ''docs_20240101120000_metadata.json'')"
  "localizar_indice_faiss diretorio_exemplo (Some ''docs_20240101120000.index'') =
     Some (''docs_20240101120000.index'', Some ''docs_20240101120000_mapping.json'',
           Some ''docs_20240101120000_metadata.json'')"
  by (simp_all add: localizar_indice_def localizar_indice_faiss_def diretorio_exemplo_def
      mais_recente_def ultimo_com_def startswith_def endswith_def ts_ex nome_derivado_def
      existente_def sem_ex)

lemma leituras_ex:
  "read_index diretorio_exemplo ''docs_20240101120000.index'' = Some indice_exemplo"
  "ler_mapeamento diretorio_exemplo ''docs_20240101120000_mapping.json''
     = Some [(0, doc_a), (7, doc_b), (- 2, doc_a)]"
  "ler_metadados ''20240201000000'' diretorio_exemplo ''docs_20240101120000_metadata.json''
     = Some \<lparr>md_id = ''docs'', md_nome = ''Faturas'', md_dimensao = 5,
          md_modelo_embeddings = ''modelo'', md_num_vetores = 9,
          md_data_criacao = ''20240101120000'', md_ultima_atualizacao = ''20240101120000'',
          md_tem_mapeamento_ids = True\<rparr>"
  by (simp_all add: read_index_def ler_mapeamento_def ler_metadados_def diretorio_exemplo_def
      pyint_ex IndiceMetadata_init_def)

lemma existentes_ex:
  "existente diretorio_exemplo (Some ''docs_20240101120000_mapping.json'')
     = Some ''docs_20240101120000_mapping.json''"
  "existente diretorio_exemplo (Some ''docs_20240101120000_metadata.json'')
     = Some ''docs_20240101120000_metadata.json''"
  by (simp_all add: existente_def diretorio_exemplo_def)

text \<open>A file that was read exists.\<close>

lemma ler_mapeamento_existe: "ler_mapeamento dir nm = Some m \<Longrightarrow> existente dir (Some nm) = Some nm"
  by (auto simp: ler_mapeamento_def existente_def split: option.splits)

lemma ler_metadados_existe: "ler_metadados agora dir nd = Some md \<Longrightarrow> existente dir (Some nd) = Some nd"
  by (auto simp: ler_metadados_def existente_def split: option.splits)

text \<open>
  C3, as the code has it. Loading validates nothing across the three files: whenever
  the index file is readable, the mapping file parses with integer keys and the
  metadata file is accepted by \<^verbatim>\<open>IndiceMetadata\<close>, both \<^verbatim>\<open>FaissService.carregar_indice\<close>
  and \<^verbatim>\<open>EmbeddingsService.carregar_indice_faiss\<close> return \<^verbatim>\<open>True\<close> and adopt the index, the
  mapping and the metadata exactly as read, whatever the dimension of the index, the
  dimension and count in the metadata and the slots of the mapping are.
\<close>

theorem carregar_sem_validacao:
  assumes "localizar_indice dir indice_id nome_arquivo = Some (nome, Some nm, Some nd)"
    and "localizar_indice_faiss dir caminho_indice = Some (nome, Some nm, Some nd)"
    and "read_index dir nome = Some ix"
    and "ler_mapeamento dir nm = Some m"
    and "ler_metadados agora dir nd = Some md"
  shows "carregar_indice dir s agora indice_id nome_arquivo =
           (True, s\<lparr>indices := (indices s)(indice_id \<mapsto> ix),
                    mapeamentos := (mapeamentos s)(indice_id \<mapsto> m),
                    metadados := (metadados s)(indice_id \<mapsto> md)\<rparr>) \<and>
         carregar_indice_faiss dir es agora caminho_indice =
           (True, es\<lparr>index := Some ix, id_para_documento := m, indice_metadata := Some md\<rparr>)"
proof
  note e1 = ler_mapeamento_existe [OF assms(4)]
  note e2 = ler_metadados_existe [OF assms(5)]
  show "carregar_indice dir s agora indice_id nome_arquivo =
           (True, s\<lparr>indices := (indices s)(indice_id \<mapsto> ix),
                    mapeamentos := (mapeamentos s)(indice_id \<mapsto> m),
                    metadados := (metadados s)(indice_id \<mapsto> md)\<rparr>)"
    by (simp add: carregar_indice_def Let_def assms(1,3,4,5) e1 e2)
  show "carregar_indice_faiss dir es agora caminho_indice =
           (True, es\<lparr>index := Some ix, id_para_documento := m, indice_metadata := Some md\<rparr>)"
    by (simp add: carregar_indice_faiss_def Let_def assms(2,3,4,5) e1 e2)
qed

theorem carregar_sem_validacao_witness:
  "localizar_indice diretorio_exemplo ''docs'' None =
     Some (''docs_20240101120000.index'', Some ''docs_20240101120000_mapping.json'',
           Some ''docs_20240101120000_metadata.json'') \<and>
   localizar_indice_faiss diretorio_exemplo None =
     Some (''docs_20240101120000.index'', Some ''docs_20240101120000_mapping.json'',
           Some ''docs_20240101120000_metadata.json'') \<and>
   read_index diretorio_exemplo ''docs_20240101120000.index'' = Some indice_exemplo \<and>
   fst (carregar_indice diretorio_exemplo FaissService_init ''20240201000000'' ''docs'' None) \<and>
   fst (carregar_indice_faiss diretorio_exemplo es_exemplo ''20240201000000'' None) \<and>
   index (snd (carregar_indice_faiss diretorio_exemplo es_exemplo ''20240201000000'' None))
     = Some indice_exemplo"
  using carregar_sem_validacao [OF localizar_ex(1) localizar_ex(2) leituras_ex,
      of FaissService_init es_exemplo]
  by (simp add: localizar_ex leituras_ex)

text \<open>
  C3 as stated fails: a snapshot whose index has dimension 3 and one vector, whose
  metadata say dimension 5, and whose mapping has the slot 7, is loaded with success,
  and all three are adopted.
\<close>

theorem carregar_sem_validacao_counterexample:
  "fst (carregar_indice diretorio_exemplo FaissService_init ''20240201000000'' ''docs'' None) \<and>
   map_option ix_d
     (indices (snd (carregar_indice diretorio_exemplo FaissService_init ''20240201000000'' ''docs'' None)) ''docs'')
     = Some 3 \<and>
   map_option md_dimensao
     (metadados (snd (carregar_indice diretorio_exemplo FaissService_init ''20240201000000'' ''docs'' None)) ''docs'')
     = Some 5 \<and>
   contagem (snd (carregar_indice diretorio_exemplo FaissService_init ''20240201000000'' ''docs'' None)) ''docs''
     = 1 \<and>
   documento_do_slot
     (snd (carregar_indice diretorio_exemplo FaissService_init ''20240201000000'' ''docs'' None)) ''docs'' 7
     = Some doc_b"
  by (simp add: carregar_indice_def localizar_ex leituras_ex existentes_ex
      FaissService_init_def Let_def contagem_def ntotal_def documento_do_slot_def
      indice_exemplo_def)

text \<open>The slots of a parsed mapping are the integers of the keys of the file, all of
  them, each with the document of the last entry of that integer; and a successful
  load stores what the mapping file parses to.\<close>

lemma chaves_inteiras_todas:
  "chaves_inteiras bruto acc = Some m \<Longrightarrow> list_all (\<lambda>(k, v). py_int k \<noteq> None) bruto"
proof (induction bruto arbitrary: acc)
  case Nil
  then show ?case by simp
next
  case (Cons par bruto)
  obtain k v where par: "par = (k, v)" by (cases par)
  obtain i where i: "py_int k = Some i"
    using Cons.prems by (auto simp: par split: option.splits)
  have "chaves_inteiras bruto (AList.update i v acc) = Some m"
    using Cons.prems by (simp add: par i)
  from Cons.IH [OF this] show ?case
    by (simp add: par i)
qed

lemma chaves_inteiras_map_of:
  "chaves_inteiras bruto acc = Some m \<Longrightarrow> map_of m = map_of acc ++ map_of (rev (rechaveado bruto))"
proof (induction bruto arbitrary: acc)
  case Nil
  then show ?case by (simp add: rechaveado_def List.map_filter_simps)
next
  case (Cons par bruto)
  obtain k v where par: "par = (k, v)" by (cases par)
  obtain i where i: "py_int k = Some i"
    using Cons.prems by (auto simp: par split: option.splits)
  have "chaves_inteiras bruto (AList.update i v acc) = Some m"
    using Cons.prems by (simp add: par i)
  from Cons.IH [OF this]
  have ih: "map_of m = (map_of acc)(i \<mapsto> v) ++ map_of (rev (rechaveado bruto))"
    unfolding update_conv' .
  have re: "rechaveado (par # bruto) = (i, v) # rechaveado bruto"
    by (simp add: rechaveado_def List.map_filter_simps par i)
  show ?case
    unfolding ih re by (auto simp: fun_eq_iff map_add_def split: option.splits)
qed

lemma rechaveado_distinto:
  assumes "list_all (\<lambda>(k, v). py_int k \<noteq> None) bruto"
    and "distinct (map (\<lambda>(k, v). py_int k) bruto)"
  shows "list_all (\<lambda>(k, v). case py_int k of None \<Rightarrow> False
           | Some i \<Rightarrow> map_of (rev (rechaveado bruto)) i = Some v) bruto"
proof -
  have r: "rechaveado bruto = map (\<lambda>(k, v). (the (py_int k), v)) bruto"
    using assms(1)
  proof (induction bruto)
    case Nil
    show ?case by (simp add: rechaveado_def List.map_filter_simps)
  next
    case (Cons par bruto)
    obtain k v where par: "par = (k, v)" by (cases par)
    obtain i where i: "py_int k = Some i" using Cons.prems by (auto simp: par)
    have "rechaveado (par # bruto) = (i, v) # rechaveado bruto"
      by (simp add: rechaveado_def List.map_filter_simps par i)
    then show ?case using Cons by (simp add: par i)
  qed
  have f: "map fst (rechaveado bruto) = map the (map (\<lambda>(k, v). py_int k) bruto)"
    unfolding r by (simp add: case_prod_unfold comp_def)
  have inj: "inj_on the (set (map (\<lambda>(k, v). py_int k) bruto))"
  proof (rule inj_onI)
    fix a b
    assume a: "a \<in> set (map (\<lambda>(k, v). py_int k) bruto)"
      and b: "b \<in> set (map (\<lambda>(k, v). py_int k) bruto)" and e: "the a = the b"
    have "a \<noteq> None" "b \<noteq> None"
      using a b assms(1) by (auto simp: list_all_iff)
    then show "a = b" using e by auto
  qed
  have "distinct (map the (map (\<lambda>(k, v). py_int k) bruto))"
    unfolding distinct_map [of the "map (\<lambda>(k, v). py_int k) bruto"]
    using assms(2) inj by blast
  then have d: "distinct (map fst (rev (rechaveado bruto)))"
    unfolding rev_map [symmetric] distinct_rev f .
  have "case py_int k of None \<Rightarrow> False | Some i \<Rightarrow> map_of (rev (rechaveado bruto)) i = Some v"
    if "(k, v) \<in> set bruto" for k v
  proof -
    from assms(1) have "\<forall>(k, v) \<in> set bruto. py_int k \<noteq> None"
      by (simp add: list_all_iff)
    with that have "py_int k \<noteq> None" by blast
    then obtain i where i: "py_int k = Some i" by blast
    have "(i, v) \<in> set (rev (rechaveado bruto))"
      unfolding r using that i by force
    then have "map_of (rev (rechaveado bruto)) i = Some v"
      using d by (rule map_of_is_SomeI [rotated])
    then show ?thesis by (simp add: i)
  qed
  then show ?thesis by (auto simp: list_all_iff)
qed

lemma ler_mapeamento_slots:
  assumes "ler_mapeamento dir nm = Some m" and "map_of dir nm = Some (ArqMapeamento bruto)"
  shows "list_all (\<lambda>(k, v). py_int k \<noteq> None) bruto"
    and "map_of m = map_of (rev (rechaveado bruto))"
    and "distinct (map (\<lambda>(k, v). py_int k) bruto) \<Longrightarrow>
         list_all (\<lambda>(k, v). case py_int k of None \<Rightarrow> False | Some i \<Rightarrow> map_of m i = Some v) bruto"
proof -
  have c: "chaves_inteiras bruto [] = Some m"
    using assms by (simp add: ler_mapeamento_def)
  show t: "list_all (\<lambda>(k, v). py_int k \<noteq> None) bruto"
    using c by (rule chaves_inteiras_todas)
  show e: "map_of m = map_of (rev (rechaveado bruto))"
    using chaves_inteiras_map_of [OF c] by simp
  show "list_all (\<lambda>(k, v). case py_int k of None \<Rightarrow> False | Some i \<Rightarrow> map_of m i = Some v) bruto"
    if "distinct (map (\<lambda>(k, v). py_int k) bruto)"
    unfolding e using t that by (rule rechaveado_distinto)
qed

lemma carregar_indice_mapeamento:
  assumes "carregar_indice dir s agora indice_id nome_arquivo = (True, s')"
    and "localizar_indice dir indice_id nome_arquivo = Some (nome, Some nm, nome_metadata)"
    and "map_of dir nm \<noteq> None"
  shows "ler_mapeamento dir nm = Some (the (mapeamentos s' indice_id)) \<and> mapeamentos s' indice_id \<noteq> None"
proof -
  have e: "existente dir (Some nm) = Some nm"
    using assms(3) by (simp add: existente_def)
  obtain ix where ix: "read_index dir nome = Some ix"
    using assms(1,2) by (cases "read_index dir nome") (simp_all add: carregar_indice_def)
  obtain m where m: "ler_mapeamento dir nm = Some m"
    using assms(1,2) ix e by (cases "ler_mapeamento dir nm") (simp_all add: carregar_indice_def Let_def)
  have "mapeamentos s' indice_id = Some m"
  proof (cases "existente dir nome_metadata")
    case None
    then show ?thesis
      using assms(1,2) ix m e by (auto simp: carregar_indice_def Let_def)
  next
    case (Some nd)
    then show ?thesis
      using assms(1,2) ix m e
      by (cases "ler_metadados agora dir nd") (auto simp: carregar_indice_def Let_def)
  qed
  then show ?thesis using m by simp
qed

lemma carregar_indice_faiss_mapeamento:
  assumes "carregar_indice_faiss dir es agora caminho_indice = (True, es')"
    and "localizar_indice_faiss dir caminho_indice = Some (nome, Some nm, caminho_metadata)"
    and "map_of dir nm \<noteq> None"
  shows "ler_mapeamento dir nm = Some (id_para_documento es')"
proof -
  have e: "existente dir (Some nm) = Some nm"
    using assms(3) by (simp add: existente_def)
  obtain ix where ix: "read_index dir nome = Some ix"
    using assms(1,2) by (cases "read_index dir nome") (simp_all add: carregar_indice_faiss_def)
  obtain m where m: "ler_mapeamento dir nm = Some m"
    using assms(1,2) ix e
    by (cases "ler_mapeamento dir nm") (simp_all add: carregar_indice_faiss_def Let_def)
  have "id_para_documento es' = m"
  proof (cases "existente dir caminho_metadata")
    case None
    then show ?thesis
      using assms(1,2) ix m e by (auto simp: carregar_indice_faiss_def Let_def)
  next
    case (Some nd)
    then show ?thesis
      using assms(1,2) ix m e
      by (cases "ler_metadados agora dir nd") (auto simp: carregar_indice_faiss_def Let_def)
  qed
  then show ?thesis using m by simp
qed

text \<open>
  C6, as the code has it. After a successful load with a mapping file, every key of
  the file is an integer, and the slot mapping in memory is exactly what the file says:
  every entry of the file is stored with its document under the integer its key parses
  to, whatever that integer is (of two entries of one integer, the later), and nothing
  else is stored. No entry is skipped for its range. (A key that is no integer makes
  the whole load fail.) This holds for both services.
\<close>

theorem mapeamento_carregado_sem_limites:
  "(carregar_indice dir s agora indice_id nome_arquivo = (True, s') \<and>
    localizar_indice dir indice_id nome_arquivo = Some (nome, Some nm, nome_metadata) \<and>
    map_of dir nm = Some (ArqMapeamento bruto) \<longrightarrow>
      list_all (\<lambda>(k, v). py_int k \<noteq> None) bruto \<and>
      documento_do_slot s' indice_id = map_of (rev (rechaveado bruto)) \<and>
      (distinct (map (\<lambda>(k, v). py_int k) bruto) \<longrightarrow>
         list_all (\<lambda>(k, v). case py_int k of None \<Rightarrow> False
                     | Some i \<Rightarrow> documento_do_slot s' indice_id i = Some v) bruto)) \<and>
   (carregar_indice_faiss dir es agora caminho_indice = (True, es') \<and>
    localizar_indice_faiss dir caminho_indice = Some (nome, Some nm, caminho_metadata) \<and>
    map_of dir nm = Some (ArqMapeamento bruto) \<longrightarrow>
      list_all (\<lambda>(k, v). py_int k \<noteq> None) bruto \<and>
      map_of (id_para_documento es') = map_of (rev (rechaveado bruto)) \<and>
      (distinct (map (\<lambda>(k, v). py_int k) bruto) \<longrightarrow>
         list_all (\<lambda>(k, v). case py_int k of None \<Rightarrow> False
                     | Some i \<Rightarrow> map_of (id_para_documento es') i = Some v) bruto))"
proof (intro conjI impI)
  assume a: "carregar_indice dir s agora indice_id nome_arquivo = (True, s') \<and>
    localizar_indice dir indice_id nome_arquivo = Some (nome, Some nm, nome_metadata) \<and>
    map_of dir nm = Some (ArqMapeamento bruto)"
  then have "ler_mapeamento dir nm = Some (the (mapeamentos s' indice_id)) \<and> mapeamentos s' indice_id \<noteq> None"
    using carregar_indice_mapeamento [of dir s agora indice_id nome_arquivo s' nome nm nome_metadata]
    by simp
  then obtain m where m: "mapeamentos s' indice_id = Some m" "ler_mapeamento dir nm = Some m"
    by auto
  have d: "documento_do_slot s' indice_id = map_of m"
    by (simp add: documento_do_slot_def m(1) fun_eq_iff)
  have b: "map_of dir nm = Some (ArqMapeamento bruto)" using a by simp
  note c = ler_mapeamento_slots [OF m(2) b]
  show "list_all (\<lambda>(k, v). py_int k \<noteq> None) bruto" by (rule c(1))
  show "documento_do_slot s' indice_id = map_of (rev (rechaveado bruto))"
    unfolding d by (rule c(2))
  show "list_all (\<lambda>(k, v). case py_int k of None \<Rightarrow> False
                  | Some i \<Rightarrow> documento_do_slot s' indice_id i = Some v) bruto"
    if "distinct (map (\<lambda>(k, v). py_int k) bruto)"
    unfolding d using that by (rule c(3))
next
  assume a: "carregar_indice_faiss dir es agora caminho_indice = (True, es') \<and>
    localizar_indice_faiss dir caminho_indice = Some (nome, Some nm, caminho_metadata) \<and>
    map_of dir nm = Some (ArqMapeamento bruto)"
  then have m: "ler_mapeamento dir nm = Some (id_para_documento es')"
    using carregar_indice_faiss_mapeamento [of dir es agora caminho_indice es' nome nm caminho_metadata]
    by simp
  have b: "map_of dir nm = Some (ArqMapeamento bruto)" using a by simp
  note c = ler_mapeamento_slots [OF m b]
  show "list_all (\<lambda>(k, v). py_int k \<noteq> None) bruto" by (rule c(1))
  show "map_of (id_para_documento es') = map_of (rev (rechaveado bruto))" by (rule c(2))
  show "list_all (\<lambda>(k, v). case py_int k of None \<Rightarrow> False
                  | Some i \<Rightarrow> map_of (id_para_documento es') i = Some v) bruto"
    if "distinct (map (\<lambda>(k, v). py_int k) bruto)"
    using that by (rule c(3))
qed

text \<open>The example snapshot, loaded by either service.\<close>

lemma carregar_faiss_ex:
  "carregar_indice_faiss diretorio_exemplo es_exemplo ''20240201000000'' None =
     (True, es_exemplo\<lparr>index := Some indice_exemplo,
        id_para_documento := [(0, doc_a), (7, doc_b), (- 2, doc_a)],
        indice_metadata := Some \<lparr>md_id = ''docs'', md_nome = ''Faturas'', md_dimensao = 5,
          md_modelo_embeddings = ''modelo'', md_num_vetores = 9,
          md_data_criacao = ''20240101120000'', md_ultima_atualizacao = ''20240101120000'',
          md_tem_mapeamento_ids = True\<rparr>\<rparr>)"
  by (simp add: carregar_indice_faiss_def localizar_ex leituras_ex existentes_ex Let_def)

lemma carregar_ex:
  "carregar_indice diretorio_exemplo FaissService_init ''20240201000000'' ''docs'' None =
     (True, FaissService_init\<lparr>indices := [''docs'' \<mapsto> indice_exemplo],
        mapeamentos := [''docs'' \<mapsto> [(0, doc_a), (7, doc_b), (- 2, doc_a)]],
        metadados := [''docs'' \<mapsto> \<lparr>md_id = ''docs'', md_nome = ''Faturas'', md_dimensao = 5,
          md_modelo_embeddings = ''modelo'', md_num_vetores = 9,
          md_data_criacao = ''20240101120000'', md_ultima_atualizacao = ''20240101120000'',
          md_tem_mapeamento_ids = True\<rparr>]\<rparr>)"
  by (simp add: carregar_indice_def localizar_ex leituras_ex existentes_ex Let_def
      FaissService_init_def)

lemma bruto_ex:
  "map_of diretorio_exemplo ''docs_20240101120000_mapping.json''
     = Some (ArqMapeamento [(''0'', doc_a), (''7'', doc_b), (''-2'', doc_a)])"
  by (simp add: diretorio_exemplo_def)

theorem mapeamento_carregado_sem_limites_witness:
  "fst (carregar_indice diretorio_exemplo FaissService_init ''20240201000000'' ''docs'' None) \<and>
   fst (carregar_indice_faiss diretorio_exemplo es_exemplo ''20240201000000'' None) \<and>
   map_of diretorio_exemplo ''docs_20240101120000_mapping.json''
     = Some (ArqMapeamento [(''0'', doc_a), (''7'', doc_b), (''-2'', doc_a)]) \<and>
   distinct (map (\<lambda>(k, v). py_int k) [(''0'', doc_a), (''7'', doc_b), (''-2'', doc_a)]) \<and>
   list_all (\<lambda>(k, v). case py_int k of None \<Rightarrow> False
       | Some i \<Rightarrow> documento_do_slot
           (snd (carregar_indice diretorio_exemplo FaissService_init ''20240201000000'' ''docs'' None))
           ''docs'' i = Some v)
     [(''0'', doc_a), (''7'', doc_b), (''-2'', doc_a)] \<and>
   list_all (\<lambda>(k, v). case py_int k of None \<Rightarrow> False
       | Some i \<Rightarrow> map_of (id_para_documento
           (snd (carregar_indice_faiss diretorio_exemplo es_exemplo ''20240201000000'' None))) i = Some v)
     [(''0'', doc_a), (''7'', doc_b), (''-2'', doc_a)] \<and>
   documento_do_slot
     (snd (carregar_indice diretorio_exemplo FaissService_init ''20240201000000'' ''docs'' None))
     ''docs'' 7 = Some doc_b \<and>
   documento_do_slot
     (snd (carregar_indice diretorio_exemplo FaissService_init ''20240201000000'' ''docs'' None))
     ''docs'' 1 = None"
proof -
  let ?r1 = "carregar_indice diretorio_exemplo FaissService_init ''20240201000000'' ''docs'' None"
  let ?r2 = "carregar_indice_faiss diretorio_exemplo es_exemplo ''20240201000000'' None"
  let ?b = "[(''0'', doc_a), (''7'', doc_b), (''-2'', doc_a)]"
  have f1: "fst ?r1" by (simp add: carregar_ex)
  have f2: "fst ?r2" by (simp add: carregar_faiss_ex)
  have p1: "?r1 = (True, snd ?r1)" using f1 by (simp add: prod_eq_iff)
  have p2: "?r2 = (True, snd ?r2)" using f2 by (simp add: prod_eq_iff)
  have dd: "distinct (map (\<lambda>(k, v). py_int k) ?b)"
    by (simp add: pyint_ex)
  have re: "rechaveado ?b = [(0, doc_a), (7, doc_b), (- 2, doc_a)]"
    by (simp add: rechaveado_def List.map_filter_simps pyint_ex)
  note t = mapeamento_carregado_sem_limites
    [of diretorio_exemplo FaissService_init "''20240201000000''" "''docs''" None "snd ?r1"
        "''docs_20240101120000.index''" "''docs_20240101120000_mapping.json''"
        "Some ''docs_20240101120000_metadata.json''" ?b
        es_exemplo None "snd ?r2" "Some ''docs_20240101120000_metadata.json''"]
  have c1: "list_all (\<lambda>(k, v). case py_int k of None \<Rightarrow> False
       | Some i \<Rightarrow> documento_do_slot (snd ?r1) ''docs'' i = Some v) ?b"
    using t p1 localizar_ex(1) bruto_ex dd by blast
  have c2: "list_all (\<lambda>(k, v). case py_int k of None \<Rightarrow> False
       | Some i \<Rightarrow> map_of (id_para_documento (snd ?r2)) i = Some v) ?b"
    using t p2 localizar_ex(2) bruto_ex dd by blast
  have e: "documento_do_slot (snd ?r1) ''docs'' = map_of (rev (rechaveado ?b))"
    using t p1 localizar_ex(1) bruto_ex by blast
  have c3: "documento_do_slot (snd ?r1) ''docs'' 7 = Some doc_b"
    unfolding e re by simp
  have c4: "documento_do_slot (snd ?r1) ''docs'' 1 = None"
    unfolding e re by simp
  show ?thesis
    using f1 f2 bruto_ex dd c1 c2 c3 c4 by blast
qed

text \<open>
  C6 as stated fails: the index loaded has one vector, and the slot mapping in memory
  has the slots 7 and -2 of the file.
\<close>

theorem mapeamento_carregado_sem_limites_counterexample:
  "fst (carregar_indice_faiss diretorio_exemplo es_exemplo ''20240201000000'' None) \<and>
   map_option ntotal
     (index (snd (carregar_indice_faiss diretorio_exemplo es_exemplo ''20240201000000'' None)))
     = Some 1 \<and>
   map_of (id_para_documento
     (snd (carregar_indice_faiss diretorio_exemplo es_exemplo ''20240201000000'' None))) 7
     = Some doc_b \<and>
   map_of (id_para_documento
     (snd (carregar_indice_faiss diretorio_exemplo es_exemplo ''20240201000000'' None))) (- 2)
     = Some doc_a"
  by (simp add: carregar_faiss_ex ntotal_def indice_exemplo_def)

section \<open>Search\<close>

























end
